theory Spec2Isabelle
  imports Complex_Main "HOL-Library.Multiset" "HOL-Library.Product_Lexorder"
begin

section \<open>The tournament simulation of basket.js\<close>

text \<open>
  Numbers: match scores and the statistics of a team are JavaScript numbers that only
  ever hold integers (counters, sums and differences of scores); they are modelled as
  \<open>int\<close>. Rankings, form values, the Poisson parameter and the running product of the
  score generator are modelled as \<open>real\<close>: arithmetic is exact here, rounding, NaN
  and infinities of IEEE doubles are not part of the model.

  Objects: a JavaScript object with string keys (\<open>groupStageMatches\<close>, \<open>teamForms\<close>)
  is a map from strings; the map holds the object's own properties, and team names are
  taken to differ from the property names every object inherits.
\<close>

subsection \<open>class Team\<close>

record Team =
  name :: string
  ranking :: real
  wins :: int
  losses :: int
  points :: int
  scored :: int
  conceded :: int

definition WIN_POINTS :: int where
  "WIN_POINTS = 2"

definition LOSS_POINTS :: int where
  "LOSS_POINTS = 1"

definition TEAM_RANK_LIMIT :: nat where
  "TEAM_RANK_LIMIT = 8"

text \<open>The constructor: every statistic starts at 0.\<close>

definition newTeam :: "string \<Rightarrow> real \<Rightarrow> Team" where
  "newTeam n r = \<lparr>name = n, ranking = r, wins = 0, losses = 0, points = 0,
     scored = 0, conceded = 0\<rparr>"

definition updateScores :: "Team \<Rightarrow> int \<Rightarrow> int \<Rightarrow> Team" where
  "updateScores t sc co = t\<lparr>scored := scored t + sc, conceded := conceded t + co\<rparr>"

definition updatePoints :: "Team \<Rightarrow> int \<Rightarrow> Team" where
  "updatePoints t p =
     (if p = WIN_POINTS
      then t\<lparr>points := points t + p, wins := wins t + 1\<rparr>
      else t\<lparr>points := points t + p, losses := losses t + 1\<rparr>)"

definition goalDifference :: "Team \<Rightarrow> int" where
  "goalDifference t = scored t - conceded t"

subsection \<open>Team objects in an array: updateMatchResults\<close>

text \<open>
  \<open>updateMatchResults(team1, team2, score1, score2)\<close> mutates the two objects it is
  given. Its only caller passes \<open>results[i]\<close> and \<open>results[j]\<close>, so an object reference
  is modelled as an index into the array \<open>results\<close>, and a method call on a reference
  rewrites that cell. Two equal references denote the same object, as in the source.
\<close>

type_synonym store = "Team list"

definition call :: "nat \<Rightarrow> (Team \<Rightarrow> Team) \<Rightarrow> store \<Rightarrow> store" where
  "call r m h = h[r := m (h ! r)]"

definition updateMatchResults :: "store \<Rightarrow> nat \<Rightarrow> nat \<Rightarrow> int \<Rightarrow> int \<Rightarrow> store" where
  "updateMatchResults h team1 team2 score1 score2 =
     (let h1 = call team1 (\<lambda>t. updateScores t score1 score2) h;
          h2 = call team2 (\<lambda>t. updateScores t score2 score1) h1
      in if score1 > score2
         then call team2 (\<lambda>t. updatePoints t LOSS_POINTS)
                (call team1 (\<lambda>t. updatePoints t WIN_POINTS) h2)
         else if score2 > score1
         then call team1 (\<lambda>t. updatePoints t LOSS_POINTS)
                (call team2 (\<lambda>t. updatePoints t WIN_POINTS) h2)
         else h2)"

subsection \<open>The random source\<close>

text \<open>
  \<open>Math.random()\<close> is the only source of randomness. A run of the program sees a fixed
  sequence of draws; \<open>rnd i\<close> is the value of the \<open>i\<close>-th call, and the state that is
  threaded through the simulation is the number of draws made so far.
\<close>

type_synonym rand = "nat \<Rightarrow> real"

definition uniform01 :: "rand \<Rightarrow> bool" where
  "uniform01 rnd \<longleftrightarrow> (\<forall>i. 0 \<le> rnd i \<and> rnd i < 1)"

subsection \<open>generatePoissonScore, simulateGamePoisson, simulatePenaltyShootout\<close>

text \<open>
  The \<open>do ... while (p > L)\<close> loop, entered with \<open>k\<close> and \<open>p\<close> and the index of the next
  draw. It returns \<open>k\<close> at the exit and the index of the next unused draw; \<open>None\<close> is a
  loop that never exits.
\<close>

partial_function (option) poissonLoop :: "rand \<Rightarrow> real \<Rightarrow> int \<Rightarrow> real \<Rightarrow> nat \<Rightarrow> (int \<times> nat) option"
  where
  "poissonLoop rnd L k p pos =
     (if p * rnd pos > L
      then poissonLoop rnd L (k + 1) (p * rnd pos) (pos + 1)
      else Some (k + 1, pos + 1))"

definition generatePoissonScore :: "rand \<Rightarrow> real \<Rightarrow> nat \<Rightarrow> (int \<times> nat) option" where
  "generatePoissonScore rnd lambda pos =
     (case poissonLoop rnd (exp (- lambda)) 0 1 pos of
        None \<Rightarrow> None
      | Some (k, pos') \<Rightarrow> Some (k - 1, pos'))"

definition calculateExpectedPoints :: "real \<Rightarrow> real \<Rightarrow> real" where
  "calculateExpectedPoints teamRanking opponentRanking =
     (let basePoints = 80;
          rankingDifferenceFactor = 1 / 10;
          rankingDifference = opponentRanking - teamRanking
      in basePoints + rankingDifference * rankingDifferenceFactor)"

text \<open>
  A form argument is \<open>None\<close> when the caller passes \<open>undefined\<close> (or nothing): the
  default parameter value \<open>0\<close> is used then.
\<close>

definition defaultArg :: "real \<Rightarrow> real option \<Rightarrow> real" where
  "defaultArg d a = (case a of None \<Rightarrow> d | Some v \<Rightarrow> v)"

definition simulateGamePoisson ::
  "rand \<Rightarrow> real \<Rightarrow> real \<Rightarrow> real option \<Rightarrow> real option \<Rightarrow> nat \<Rightarrow> ((int \<times> int) \<times> nat) option" where
  "simulateGamePoisson rnd ranking1 ranking2 form1 form2 pos =
     (let lambda1 = calculateExpectedPoints ranking1 ranking2 + defaultArg 0 form1;
          lambda2 = calculateExpectedPoints ranking2 ranking1 + defaultArg 0 form2
      in case generatePoissonScore rnd lambda1 pos of
           None \<Rightarrow> None
         | Some (score1, pos1) \<Rightarrow>
             (case generatePoissonScore rnd lambda2 pos1 of
                None \<Rightarrow> None
              | Some (score2, pos2) \<Rightarrow> Some ((score1, score2), pos2)))"

definition simulatePenaltyShootout :: "rand \<Rightarrow> nat \<Rightarrow> (int \<times> int) \<times> nat" where
  "simulatePenaltyShootout rnd pos =
     (let team1Score = \<lfloor>rnd pos * 5\<rfloor>;
          team2Score = \<lfloor>rnd (pos + 1) * 5\<rfloor>
      in ((team1Score, team2Score), pos + 2))"

subsection \<open>The group stage\<close>

text \<open>
  \<open>groupStageMatches\<close> maps a team name to the set of names it has played. A missing
  key reads as \<open>undefined\<close>.
\<close>

type_synonym matchRecord = "string \<rightharpoonup> string set"

definition members :: "matchRecord \<Rightarrow> string \<Rightarrow> string set" where
  "members g t = (case g t of None \<Rightarrow> {} | Some s \<Rightarrow> s)"

definition recordGroupStageMatch :: "matchRecord \<Rightarrow> string \<Rightarrow> string \<Rightarrow> matchRecord" where
  "recordGroupStageMatch g team1 team2 =
     (let g1 = (if g team1 = None then g(team1 \<mapsto> {}) else g);
          g2 = (if g1 team2 = None then g1(team2 \<mapsto> {}) else g1);
          g3 = g2(team1 \<mapsto> insert team2 (members g2 team1))
      in g3(team2 \<mapsto> insert team1 (members g3 team2)))"

text \<open>
  The comparator of \<open>sort\<close> orders by points, then goal difference, then points scored,
  each descending, and \<open>Array.prototype.sort\<close> is stable: that is a stable sort on the
  key below, ordered lexicographically.
\<close>

definition sortTeamsByPerformance :: "Team list \<Rightarrow> Team list" where
  "sortTeamsByPerformance results =
     sort_key (\<lambda>t. (- points t, - goalDifference t, - scored t)) results"

text \<open>
  The iterations of \<open>for (i = 0; i < n; i++) for (j = i + 1; j < n; j++)\<close>, in order.
\<close>

definition schedule :: "nat \<Rightarrow> (nat \<times> nat) list" where
  "schedule n = concat (map (\<lambda>i. map (\<lambda>j. (i, j)) [i + 1 ..< n]) [0 ..< n])"

text \<open>
  The body of the inner loop, run for a list of iterations. The state is the array
  \<open>results\<close>, the match record and the number of draws made. The rankings are read
  before the match is played, the names that are recorded after the update.
\<close>

fun playMatches ::
  "rand \<Rightarrow> (nat \<times> nat) list \<Rightarrow> store \<times> matchRecord \<times> nat \<Rightarrow> (store \<times> matchRecord \<times> nat) option"
  where
  "playMatches rnd [] st = Some st"
| "playMatches rnd ((i, j) # rest) (results, g, pos) =
     (case simulateGamePoisson rnd (ranking (results ! i)) (ranking (results ! j)) None None pos of
        None \<Rightarrow> None
      | Some ((team1Score, team2Score), pos') \<Rightarrow>
          (let results' = updateMatchResults results i j team1Score team2Score
           in playMatches rnd rest
                (results',
                 recordGroupStageMatch g (name (results' ! i)) (name (results' ! j)),
                 pos')))"

definition playGroupStage ::
  "rand \<Rightarrow> Team list \<Rightarrow> matchRecord \<times> nat \<Rightarrow> (Team list \<times> matchRecord \<times> nat) option" where
  "playGroupStage rnd teams st =
     (let results = map (\<lambda>team. newTeam (name team) (ranking team)) teams
      in case playMatches rnd (schedule (length results)) (results, fst st, snd st) of
           None \<Rightarrow> None
         | Some (results', g', pos') \<Rightarrow> Some (sortTeamsByPerformance results', g', pos'))"

text \<open>
  \<open>simulateGroupStages\<close> runs the groups of \<open>groups.json\<close> in order; a group is its
  list of (Team, FIBARanking) entries. \<open>rankTeamsForKnockout\<close> flattens the standings,
  sorts them and keeps the first \<open>TEAM_RANK_LIMIT\<close>.
\<close>

fun simulateGroupStages ::
  "rand \<Rightarrow> (string \<times> real) list list \<Rightarrow> matchRecord \<times> nat \<Rightarrow> (Team list list \<times> matchRecord \<times> nat) option"
  where
  "simulateGroupStages rnd [] st = Some ([], st)"
| "simulateGroupStages rnd (grp # rest) st =
     (case playGroupStage rnd (map (\<lambda>(n, r). newTeam n r) grp) st of
        None \<Rightarrow> None
      | Some (groupStageResults, st') \<Rightarrow>
          (case simulateGroupStages rnd rest st' of
             None \<Rightarrow> None
           | Some (groupResults, st'') \<Rightarrow> Some (groupStageResults # groupResults, st'')))"

definition rankTeamsForKnockout :: "Team list list \<Rightarrow> Team list" where
  "rankTeamsForKnockout groupResults =
     take TEAM_RANK_LIMIT (sortTeamsByPerformance (concat groupResults))"

subsection \<open>calculateCumulativeForm\<close>

text \<open>
  \<open>exhibitions\<close> is given by its entries in \<open>Object.entries\<close> order. The value of an
  entry is an array of matches or anything else. A match has an \<open>Opponent\<close> and a
  \<open>Result\<close>; \<open>Result\<close> is \<open>None\<close> when the match has no string there, and
  \<open>match.Result.split\<close> raises a TypeError then. The conversion of a result string
  \<open>"X-Y"\<close> to its two numbers, \<open>match.Result.split('-').map(Number)\<close>, is library code
  and a parameter of the model.
\<close>

datatype error = TypeError

record exhibitionMatch =
  Opponent :: string
  Result :: "string option"

datatype exhibitionEntry = NotAnArray | Matches "exhibitionMatch list"

type_synonym forms = "string \<rightharpoonup> real"

fun sumDifferences ::
  "(string \<Rightarrow> real \<times> real) \<Rightarrow> exhibitionMatch list \<Rightarrow> real \<Rightarrow> error + real" where
  "sumDifferences parseResult [] cumulativeDifference = Inr cumulativeDifference"
| "sumDifferences parseResult (m # rest) cumulativeDifference =
     (case Result m of
        None \<Rightarrow> Inl TypeError
      | Some r \<Rightarrow>
          (case parseResult r of
             (teamGoals, opponentGoals) \<Rightarrow>
               sumDifferences parseResult rest
                 (cumulativeDifference + (teamGoals - opponentGoals))))"

fun formLoop ::
  "(string \<Rightarrow> real \<times> real) \<Rightarrow> (string \<times> exhibitionEntry) list \<Rightarrow> forms \<Rightarrow> error + forms" where
  "formLoop parseResult [] teamForms = Inr teamForms"
| "formLoop parseResult ((team, NotAnArray) # rest) teamForms =
     formLoop parseResult rest teamForms"
| "formLoop parseResult ((team, Matches ms) # rest) teamForms =
     (case sumDifferences parseResult ms 0 of
        Inl e \<Rightarrow> Inl e
      | Inr cumulativeDifference \<Rightarrow>
          formLoop parseResult rest (teamForms(team \<mapsto> cumulativeDifference)))"

definition calculateCumulativeForm ::
  "(string \<Rightarrow> real \<times> real) \<Rightarrow> (string \<times> exhibitionEntry) list \<Rightarrow> error + forms" where
  "calculateCumulativeForm parseResult exhibitions = formLoop parseResult exhibitions Map.empty"

subsection \<open>drawKnockoutStage\<close>

datatype hatName = HatD | HatE | HatF | HatG

type_synonym hats = "hatName \<Rightarrow> Team list"

text \<open>The state of the draw: \<open>quarterFinals\<close> and \<open>usedTeams\<close>.\<close>

type_synonym drawState = "(Team \<times> Team) list \<times> string set"

text \<open>
  \<open>this.groupStageMatches[team1.name]?.has(team2.name)\<close> is \<open>undefined\<close> for a team
  without a record, and it is only used under \<open>!\<close>.
\<close>

definition isMatchAlreadyPlayed :: "matchRecord \<Rightarrow> Team \<Rightarrow> Team \<Rightarrow> bool" where
  "isMatchAlreadyPlayed g team1 team2 =
     (case g (name team1) of None \<Rightarrow> False | Some s \<Rightarrow> name team2 \<in> s)"

definition findOpponent :: "matchRecord \<Rightarrow> hats \<Rightarrow> string set \<Rightarrow> Team \<Rightarrow> hatName \<Rightarrow> Team option" where
  "findOpponent g hats usedTeams team hat2 =
     List.find (\<lambda>opponent. \<not> isMatchAlreadyPlayed g team opponent \<and> name opponent \<notin> usedTeams)
       (hats hat2)"

text \<open>One \<open>for (const team1 of ...)\<close> loop of \<open>tryPairing\<close>, over the teams left.\<close>

fun pairHat :: "matchRecord \<Rightarrow> hats \<Rightarrow> hatName \<Rightarrow> Team list \<Rightarrow> drawState \<Rightarrow> drawState" where
  "pairHat g hats hat2 [] st = st"
| "pairHat g hats hat2 (team1 # rest) (quarterFinals, usedTeams) =
     (case findOpponent g hats usedTeams team1 hat2 of
        Some opponent \<Rightarrow>
          pairHat g hats hat2 rest
            (quarterFinals @ [(team1, opponent)],
             insert (name opponent) (insert (name team1) usedTeams))
      | None \<Rightarrow> pairHat g hats hat2 rest (quarterFinals, usedTeams))"

text \<open>
  \<open>tryPairing\<close> changes the state; the value it returns is
  \<open>quarterFinals.length === 4\<close> of the state it leaves, which the loop tests.
\<close>

definition tryPairing :: "matchRecord \<Rightarrow> hats \<Rightarrow> drawState \<Rightarrow> drawState" where
  "tryPairing g hats st = pairHat g hats HatF (hats HatE) (pairHat g hats HatG (hats HatD) st)"

text \<open>
  \<open>shift\<close> and \<open>push\<close> on a hat: every hat is an array of two elements, for which
  this is \<open>rotate1\<close>.
\<close>

definition reorderTeams :: "hats \<Rightarrow> hatName \<Rightarrow> hats" where
  "reorderTeams hats hat = hats(hat := rotate1 (hats hat))"

text \<open>
  The \<open>while (!tryPairing())\<close> loop. \<open>None\<close> is a loop that never exits; the source
  has no other exit than a successful \<open>tryPairing\<close>.
\<close>

partial_function (option) drawLoop :: "matchRecord \<Rightarrow> hats \<Rightarrow> drawState \<Rightarrow> (Team \<times> Team) list option"
  where
  "drawLoop g hats st =
     (if length (fst (tryPairing g hats st)) = 4
      then Some (fst (tryPairing g hats st))
      else drawLoop g (reorderTeams (reorderTeams hats HatG) HatF) ([], {}))"

definition makeHats :: "Team list \<Rightarrow> hats" where
  "makeHats rankedTeams = (\<lambda>hat. case hat of
       HatD \<Rightarrow> [rankedTeams ! 0, rankedTeams ! 1]
     | HatE \<Rightarrow> [rankedTeams ! 2, rankedTeams ! 3]
     | HatF \<Rightarrow> [rankedTeams ! 4, rankedTeams ! 5]
     | HatG \<Rightarrow> [rankedTeams ! 6, rankedTeams ! 7])"

text \<open>
  With fewer than 8 teams \<open>rankedTeams[7]\<close> is \<open>undefined\<close>. The first run of
  \<open>tryPairing\<close> then reads \<open>.name\<close> of an \<open>undefined\<close> hat member before it can return
  (the second team of hat D finds the first team of hat G played or used and goes on to
  the second, or a team before it is \<open>undefined\<close> itself), which raises a TypeError.
\<close>

definition drawKnockoutStage :: "matchRecord \<Rightarrow> Team list \<Rightarrow> (error + (Team \<times> Team) list) option" where
  "drawKnockoutStage g rankedTeams =
     (if length rankedTeams < 8 then Some (Inl TypeError)
      else map_option Inr (drawLoop g (makeHats rankedTeams) ([], {})))"

subsection \<open>simulateKnockoutStage\<close>

text \<open>
  The quarter-final loop and the semi-final loop have the same body, up to the array the
  winner is pushed to: \<open>knockoutMatch\<close> is that body, and returns the team pushed.
  (The constant \<open>loser\<close> of the source is never read.)
\<close>

definition knockoutMatch :: "forms \<Rightarrow> rand \<Rightarrow> Team \<Rightarrow> Team \<Rightarrow> nat \<Rightarrow> (Team \<times> nat) option" where
  "knockoutMatch teamForms rnd team1 team2 pos =
     (case simulateGamePoisson rnd (ranking team1) (ranking team2)
             (teamForms (name team1)) (teamForms (name team2)) pos of
        None \<Rightarrow> None
      | Some ((score1, score2), pos1) \<Rightarrow>
          (let winner = (if score1 > score2 then team1 else team2)
           in if score1 = score2
              then (case simulatePenaltyShootout rnd pos1 of
                      ((penaltyScore1, penaltyScore2), pos2) \<Rightarrow>
                        if penaltyScore1 > penaltyScore2 then Some (team1, pos2)
                        else Some (team2, pos2))
              else Some (winner, pos1)))"

fun quarterFinalRound ::
  "forms \<Rightarrow> rand \<Rightarrow> (Team \<times> Team) list \<Rightarrow> Team list \<Rightarrow> nat \<Rightarrow> (Team list \<times> nat) option" where
  "quarterFinalRound teamForms rnd [] semiFinals pos = Some (semiFinals, pos)"
| "quarterFinalRound teamForms rnd ((team1, team2) # rest) semiFinals pos =
     (case knockoutMatch teamForms rnd team1 team2 pos of
        None \<Rightarrow> None
      | Some (w, pos') \<Rightarrow> quarterFinalRound teamForms rnd rest (semiFinals @ [w]) pos')"

text \<open>\<open>while (semiFinals.length > 1)\<close>, taking the first two teams each time.\<close>

fun semiFinalRound ::
  "forms \<Rightarrow> rand \<Rightarrow> Team list \<Rightarrow> Team list \<Rightarrow> nat \<Rightarrow> (Team list \<times> nat) option" where
  "semiFinalRound teamForms rnd (team1 # team2 # rest) finals pos =
     (case knockoutMatch teamForms rnd team1 team2 pos of
        None \<Rightarrow> None
      | Some (w, pos') \<Rightarrow> semiFinalRound teamForms rnd rest (finals @ [w]) pos')"
| "semiFinalRound teamForms rnd semiFinals finals pos = Some (finals, pos)"

record knockoutResult =
  champion :: Team
  runnerUp :: Team

text \<open>
  The final. \<open>const [finalist1, finalist2] = finals\<close> leaves a finalist \<open>undefined\<close>
  when \<open>finals\<close> has fewer than two teams, and reading its \<open>ranking\<close> raises a
  TypeError.
\<close>

definition playFinal :: "forms \<Rightarrow> rand \<Rightarrow> Team list \<Rightarrow> nat \<Rightarrow> (error + knockoutResult \<times> nat) option" where
  "playFinal teamForms rnd finals pos =
     (case finals of
        finalist1 # finalist2 # _ \<Rightarrow>
          (case simulateGamePoisson rnd (ranking finalist1) (ranking finalist2)
                  (teamForms (name finalist1)) (teamForms (name finalist2)) pos of
             None \<Rightarrow> None
           | Some ((finalScore1, finalScore2), pos') \<Rightarrow>
               Some (Inr (\<lparr>champion = (if finalScore1 > finalScore2 then finalist1 else finalist2),
                           runnerUp = (if finalScore1 < finalScore2 then finalist1 else finalist2)\<rparr>,
                          pos')))
      | _ \<Rightarrow> Some (Inl TypeError))"

definition simulateKnockoutStage ::
  "forms \<Rightarrow> rand \<Rightarrow> (Team \<times> Team) list \<Rightarrow> nat \<Rightarrow> (error + knockoutResult \<times> nat) option" where
  "simulateKnockoutStage teamForms rnd quarterFinals pos =
     (case quarterFinalRound teamForms rnd quarterFinals [] pos of
        None \<Rightarrow> None
      | Some (semiFinals, pos1) \<Rightarrow>
          (case semiFinalRound teamForms rnd semiFinals [] pos1 of
             None \<Rightarrow> None
           | Some (finals, pos2) \<Rightarrow> playFinal teamForms rnd finals pos2))"

text \<open>\<open>displayEliminationResults\<close> reads the third place off the result.\<close>

definition thirdPlace :: "knockoutResult \<Rightarrow> Team" where
  "thirdPlace knockoutResults = runnerUp knockoutResults"

subsection \<open>The program: the constructor and simulateTournament\<close>

text \<open>
  \<open>displayFriendlyMatches\<close> runs over the same entries as
  \<open>calculateCumulativeForm\<close> and calls \<open>matches.forEach\<close> on each value, without the
  \<open>Array.isArray\<close> test: on a value that is not an array the call raises a TypeError
  (there is no such method, or the value is \<open>null\<close>). What it prints is not modelled.
\<close>

fun displayFriendlyMatches :: "(string \<times> exhibitionEntry) list \<Rightarrow> error + unit" where
  "displayFriendlyMatches [] = Inr ()"
| "displayFriendlyMatches ((team, NotAnArray) # rest) = Inl TypeError"
| "displayFriendlyMatches ((team, Matches ms) # rest) = displayFriendlyMatches rest"

text \<open>
  The program is \<open>new Tournament(teamsMap)\<close> followed by \<open>simulateTournament()\<close>. The
  constructor computes \<open>teamForms\<close> and starts with an empty match record; an error
  raised anywhere is not caught and ends the program. The result is that of the
  knockout stage; \<open>None\<close> is a program that never ends.
\<close>

definition simulateTournament ::
  "(string \<Rightarrow> real \<times> real) \<Rightarrow> (string \<times> exhibitionEntry) list \<Rightarrow> (string \<times> real) list list
     \<Rightarrow> rand \<Rightarrow> (error + knockoutResult \<times> nat) option" where
  "simulateTournament parseResult exhibitions groups rnd =
     (case calculateCumulativeForm parseResult exhibitions of
        Inl e \<Rightarrow> Some (Inl e)
      | Inr teamForms \<Rightarrow>
          (case displayFriendlyMatches exhibitions of
             Inl e \<Rightarrow> Some (Inl e)
           | Inr _ \<Rightarrow>
               (case simulateGroupStages rnd groups (Map.empty, 0) of
                  None \<Rightarrow> None
                | Some (groupResults, groupStageMatches, pos) \<Rightarrow>
                    (case drawKnockoutStage groupStageMatches (rankTeamsForKnockout groupResults) of
                       None \<Rightarrow> None
                     | Some (Inl e) \<Rightarrow> Some (Inl e)
                     | Some (Inr knockoutDraw) \<Rightarrow>
                         simulateKnockoutStage teamForms rnd knockoutDraw pos))))"

section \<open>Notions used to state the properties\<close>

subsection \<open>Histories of the group stage\<close>

text \<open>
  The match record after the matches \<open>ms\<close> (pairs of team names, in the order played)
  have been recorded, starting from the empty object of the constructor.
  \<open>roundRobin\<close> is the list of matches \<open>playGroupStage\<close> records for one group.
\<close>

definition historyOf :: "(string \<times> string) list \<Rightarrow> matchRecord" where
  "historyOf ms = foldl (\<lambda>g (a, b). recordGroupStageMatch g a b) Map.empty ms"

definition roundRobin :: "string list \<Rightarrow> (string \<times> string) list" where
  "roundRobin names = map (\<lambda>(i, j). (names ! i, names ! j)) (schedule (length names))"

subsection \<open>The draw\<close>

text \<open>
  \<open>retry\<close> is the body of the draw loop on the hats, \<open>paired\<close> the value
  \<open>tryPairing()\<close> returns from the cleared state. \<open>hatsOf ts hats\<close> holds of the
  hats built from \<open>ts\<close> and of what rotations of G and F make of them.
\<close>

definition retry :: "hats \<Rightarrow> hats" where
  "retry hats = reorderTeams (reorderTeams hats HatG) HatF"

definition paired :: "matchRecord \<Rightarrow> hats \<Rightarrow> bool" where
  "paired g hats \<longleftrightarrow> length (fst (tryPairing g hats ([], {}))) = 4"

definition hatsOf :: "Team list \<Rightarrow> hats \<Rightarrow> bool" where
  "hatsOf ts hats \<longleftrightarrow>
     hats HatD = [ts ! 0, ts ! 1] \<and> hats HatE = [ts ! 2, ts ! 3]
   \<and> (hats HatF = [ts ! 4, ts ! 5] \<or> hats HatF = [ts ! 5, ts ! 4])
   \<and> (hats HatG = [ts ! 6, ts ! 7] \<or> hats HatG = [ts ! 7, ts ! 6])"

text \<open>
  A bracket in the words of the specification: four pairs that hold each of the eight
  teams once, each pair a team of hat D with a team of hat G or a team of hat E with a
  team of hat F, and no pair recorded as played, in either direction.
\<close>

definition teamsOf :: "(Team \<times> Team) list \<Rightarrow> Team list" where
  "teamsOf qf = concat (map (\<lambda>(a, b). [a, b]) qf)"

definition hatPair :: "Team list \<Rightarrow> Team \<times> Team \<Rightarrow> bool" where
  "hatPair ts p \<longleftrightarrow>
     (fst p \<in> {ts ! 0, ts ! 1} \<and> snd p \<in> {ts ! 6, ts ! 7})
   \<or> (fst p \<in> {ts ! 2, ts ! 3} \<and> snd p \<in> {ts ! 4, ts ! 5})"

definition validBracket :: "matchRecord \<Rightarrow> Team list \<Rightarrow> (Team \<times> Team) list \<Rightarrow> bool" where
  "validBracket g ts qf \<longleftrightarrow>
     length qf = 4 \<and> mset (teamsOf qf) = mset (take 8 ts)
   \<and> list_all (\<lambda>p. hatPair ts p \<and> \<not> isMatchAlreadyPlayed g (fst p) (snd p)
                    \<and> \<not> isMatchAlreadyPlayed g (snd p) (fst p)) qf"

text \<open>The shape of every bracket the draw returns.\<close>

definition goodDraw :: "matchRecord \<Rightarrow> Team list \<Rightarrow> (Team \<times> Team) list \<Rightarrow> bool" where
  "goodDraw g ts qf \<longleftrightarrow>
     (\<exists>x y u v. qf = [(ts ! 0, x), (ts ! 1, y), (ts ! 2, u), (ts ! 3, v)]
        \<and> (x = ts ! 6 \<and> y = ts ! 7 \<or> x = ts ! 7 \<and> y = ts ! 6)
        \<and> (u = ts ! 4 \<and> v = ts ! 5 \<or> u = ts ! 5 \<and> v = ts ! 4)
        \<and> \<not> isMatchAlreadyPlayed g (ts ! 0) x \<and> \<not> isMatchAlreadyPlayed g (ts ! 1) y
        \<and> \<not> isMatchAlreadyPlayed g (ts ! 2) u \<and> \<not> isMatchAlreadyPlayed g (ts ! 3) v)"

subsection \<open>Points\<close>

definition pointsInvariant :: "Team \<Rightarrow> bool" where
  "pointsInvariant t \<longleftrightarrow> points t = WIN_POINTS * wins t + LOSS_POINTS * losses t"

subsection \<open>Sample runs\<close>

text \<open>
  A random source that returns the given draws, and \<open>0\<close> after them. A draw of \<open>0\<close>
  ends the loop of \<open>generatePoissonScore\<close> at once, so the score of a team is the
  number of draws above one half that precede it.
\<close>

definition replay :: "real list \<Rightarrow> rand" where
  "replay xs i = (if i < length xs then xs ! i else 0)"

text \<open>
  Three groups of four, each played as a round robin, and teams that came out of it
  with two wins and one loss, ordered by goal difference.
\<close>

definition groupsHistory :: "(string \<times> string) list" where
  "groupsHistory =
     roundRobin [''Canada'', ''Australia'', ''Greece'', ''Spain'']
   @ roundRobin [''Germany'', ''France'', ''Brazil'', ''Japan'']
   @ roundRobin [''United States'', ''Serbia'', ''South Sudan'', ''Puerto Rico'']"

definition seeded :: "string \<Rightarrow> real \<Rightarrow> int \<Rightarrow> Team" where
  "seeded n r s = \<lparr>name = n, ranking = r, wins = 2, losses = 1, points = 5,
     scored = s, conceded = 240\<rparr>"

text \<open>
  Germany, France and Brazil come from one group, Canada, Australia and Greece from
  another, Serbia and the United States from the third. Canada can only meet the United
  States and France can only meet Serbia.
\<close>

definition lockstepTeams :: "Team list" where
  "lockstepTeams =
     [seeded ''Germany'' 3 270, seeded ''Canada'' 7 265, seeded ''Australia'' 5 262,
      seeded ''France'' 9 258, seeded ''Brazil'' 12 255, seeded ''Serbia'' 4 251,
      seeded ''United States'' 1 249, seeded ''Greece'' 14 246]"

definition lockstepBracket :: "(Team \<times> Team) list" where
  "lockstepBracket =
     [(lockstepTeams ! 0, lockstepTeams ! 7), (lockstepTeams ! 1, lockstepTeams ! 6),
      (lockstepTeams ! 2, lockstepTeams ! 4), (lockstepTeams ! 3, lockstepTeams ! 5)]"

text \<open>The same with Serbia and South Sudan in hat F: the second attempt succeeds.\<close>

definition retryTeams :: "Team list" where
  "retryTeams =
     [seeded ''Germany'' 3 270, seeded ''Canada'' 7 265, seeded ''Australia'' 5 262,
      seeded ''France'' 9 258, seeded ''Serbia'' 4 255, seeded ''South Sudan'' 33 251,
      seeded ''United States'' 1 249, seeded ''Greece'' 14 246]"

definition retryBracket :: "(Team \<times> Team) list" where
  "retryBracket =
     [(retryTeams ! 0, retryTeams ! 7), (retryTeams ! 1, retryTeams ! 6),
      (retryTeams ! 2, retryTeams ! 5), (retryTeams ! 3, retryTeams ! 4)]"

text \<open>
  Canada has played both teams of hat G (Greece, Spain); in the second list Canada, in
  hat E, has played both teams of hat F (Australia, Greece).
\<close>

definition blockedTeams :: "Team list" where
  "blockedTeams =
     [seeded ''Canada'' 7 270, seeded ''Germany'' 3 265, seeded ''United States'' 1 262,
      seeded ''France'' 9 258, seeded ''Serbia'' 4 255, seeded ''Brazil'' 12 251,
      seeded ''Greece'' 14 249, seeded ''Spain'' 2 246]"

definition blockedTeams2 :: "Team list" where
  "blockedTeams2 =
     [seeded ''Germany'' 3 270, seeded ''United States'' 1 265, seeded ''Serbia'' 4 262,
      seeded ''Canada'' 7 258, seeded ''Australia'' 5 255, seeded ''Greece'' 14 251,
      seeded ''France'' 9 249, seeded ''South Sudan'' 33 246]"

text \<open>Draws for single knockout matches and for a whole knockout stage.\<close>

definition shootoutDraws :: "real list" where
  "shootoutDraws = [0, 0, 9 / 10, 1 / 10]"

definition tiedShootoutDraws :: "real list" where
  "tiedShootoutDraws = [0, 0, 1 / 10, 1 / 10, 9 / 10, 1 / 10]"

definition tiedFinalDraws :: "real list" where
  "tiedFinalDraws =
     [9 / 10, 0, 0,   0, 9 / 10, 0,   9 / 10, 0, 0,   0, 9 / 10, 0,
      9 / 10, 0, 0,   0, 9 / 10, 0,
      9 / 10, 0, 9 / 10, 0]"

text \<open>Exhibition data with one entry that is not an array, and a group of two teams.\<close>

definition sampleResult :: "string \<Rightarrow> real \<times> real" where
  "sampleResult r =
     (if r = ''66-90'' then (66, 90) else if r = ''92-78'' then (92, 78) else (0, 0))"

definition sampleExhibitions :: "(string \<times> exhibitionEntry) list" where
  "sampleExhibitions =
     [(''Germany'', Matches [\<lparr>Opponent = ''France'', Result = Some ''66-90''\<rparr>,
                             \<lparr>Opponent = ''Japan'', Result = Some ''92-78''\<rparr>]),
      (''Canada'', NotAnArray)]"

definition sampleGroups :: "(string \<times> real) list list" where
  "sampleGroups = [[(''Canada'', 7), (''Greece'', 14)]]"

definition samplePair :: "Team list" where
  "samplePair = [newTeam ''Canada'' 7, newTeam ''Greece'' 14]"

definition samplePairPlayed :: "Team list" where
  "samplePairPlayed =
     [\<lparr>name = ''Canada'', ranking = 7, wins = 1, losses = 0, points = 2, scored = 1, conceded = 0\<rparr>,
      \<lparr>name = ''Greece'', ranking = 14, wins = 0, losses = 1, points = 1, scored = 0, conceded = 1\<rparr>]"

section \<open>Match results\<close>

text \<open>
  C4. For a match between two different team objects with scores \<open>(s1, s2)\<close>,
  \<open>updateMatchResults\<close> adds \<open>s1\<close> to team1's scored and \<open>s2\<close> to its conceded, and
  symmetrically for team2. If \<open>s1 > s2\<close>, team1 gains exactly 2 points and one win and
  team2 exactly 1 point and one loss; symmetrically if \<open>s2 > s1\<close>. If \<open>s1 = s2\<close>, the
  points, wins and losses of both teams are unchanged.
\<close>

theorem updateMatchResults_effect:
  assumes "i < length h" and "j < length h" and "i \<noteq> j"
    and "h' = updateMatchResults h i j s1 s2"
  shows "scored (h' ! i) = scored (h ! i) + s1 \<and> conceded (h' ! i) = conceded (h ! i) + s2
       \<and> scored (h' ! j) = scored (h ! j) + s2 \<and> conceded (h' ! j) = conceded (h ! j) + s1
       \<and> (s1 > s2 \<longrightarrow>
            points (h' ! i) = points (h ! i) + 2 \<and> wins (h' ! i) = wins (h ! i) + 1
          \<and> losses (h' ! i) = losses (h ! i)
          \<and> points (h' ! j) = points (h ! j) + 1 \<and> losses (h' ! j) = losses (h ! j) + 1
          \<and> wins (h' ! j) = wins (h ! j))
       \<and> (s2 > s1 \<longrightarrow>
            points (h' ! j) = points (h ! j) + 2 \<and> wins (h' ! j) = wins (h ! j) + 1
          \<and> losses (h' ! j) = losses (h ! j)
          \<and> points (h' ! i) = points (h ! i) + 1 \<and> losses (h' ! i) = losses (h ! i) + 1
          \<and> wins (h' ! i) = wins (h ! i))
       \<and> (s1 = s2 \<longrightarrow>
            points (h' ! i) = points (h ! i) \<and> wins (h' ! i) = wins (h ! i)
          \<and> losses (h' ! i) = losses (h ! i)
          \<and> points (h' ! j) = points (h ! j) \<and> wins (h' ! j) = wins (h ! j)
          \<and> losses (h' ! j) = losses (h ! j))"
  using assms
  by (simp add: updateMatchResults_def call_def updateScores_def updatePoints_def
      WIN_POINTS_def LOSS_POINTS_def Let_def)

text \<open>Canada beats Greece 85:79.\<close>

theorem updateMatchResults_effect_witness:
  "(let h = [newTeam ''Canada'' 7, newTeam ''Greece'' 14];
        h' = updateMatchResults h 0 1 85 79
    in (0::nat) < length h \<and> (1::nat) < length h \<and> (0::nat) \<noteq> 1
     \<and> scored (h' ! 0) = 85 \<and> conceded (h' ! 0) = 79 \<and> points (h' ! 0) = 2
     \<and> wins (h' ! 0) = 1 \<and> losses (h' ! 0) = 0
     \<and> scored (h' ! 1) = 79 \<and> conceded (h' ! 1) = 85 \<and> points (h' ! 1) = 1
     \<and> wins (h' ! 1) = 0 \<and> losses (h' ! 1) = 1)"
  using updateMatchResults_effect [of 0 "[newTeam ''Canada'' 7, newTeam ''Greece'' 14]" 1
      "updateMatchResults [newTeam ''Canada'' 7, newTeam ''Greece'' 14] 0 1 85 79" 85 79]
  by (simp add: newTeam_def)

subsection \<open>Points, wins and losses\<close>

lemma pointsInvariant_newTeam: "pointsInvariant (newTeam n r)"
  by (simp add: pointsInvariant_def newTeam_def)

lemma pointsInvariant_updateScores:
  "pointsInvariant t \<Longrightarrow> pointsInvariant (updateScores t a b)"
  by (simp add: pointsInvariant_def updateScores_def)

lemma pointsInvariant_updatePoints:
  "pointsInvariant t \<Longrightarrow> p = WIN_POINTS \<or> p = LOSS_POINTS \<Longrightarrow> pointsInvariant (updatePoints t p)"
  by (auto simp: pointsInvariant_def updatePoints_def WIN_POINTS_def LOSS_POINTS_def)

lemma call_preserves:
  assumes "\<And>t. P t \<Longrightarrow> P (m t)" and "\<forall>t \<in> set h. P t"
  shows "\<forall>t \<in> set (call r m h). P t"
proof (cases "r < length h")
  case True
  then have "P (m (h ! r))"
    using assms by simp
  with assms(2) show ?thesis
    unfolding call_def using set_update_subset_insert [of h r "m (h ! r)"] by auto
next
  case False
  then have "h[r := m (h ! r)] = h"
    by (intro list_update_beyond) simp
  with assms(2) show ?thesis by (simp add: call_def)
qed

lemma updateMatchResults_pointsInvariant:
  assumes "\<forall>t \<in> set h. pointsInvariant t"
  shows "\<forall>t \<in> set (updateMatchResults h i j s1 s2). pointsInvariant t"
proof -
  define h1 where "h1 = call i (\<lambda>t. updateScores t s1 s2) h"
  define h2 where "h2 = call j (\<lambda>t. updateScores t s2 s1) h1"
  have sc: "\<And>t a b. pointsInvariant t \<Longrightarrow> pointsInvariant (updateScores t a b)"
    by (rule pointsInvariant_updateScores)
  have win: "\<And>t. pointsInvariant t \<Longrightarrow> pointsInvariant (updatePoints t WIN_POINTS)"
    by (rule pointsInvariant_updatePoints) simp_all
  have loss: "\<And>t. pointsInvariant t \<Longrightarrow> pointsInvariant (updatePoints t LOSS_POINTS)"
    by (rule pointsInvariant_updatePoints) simp_all
  have i1: "\<forall>t \<in> set h1. pointsInvariant t"
    unfolding h1_def by (rule call_preserves [OF sc assms])
  have i2: "\<forall>t \<in> set h2. pointsInvariant t"
    unfolding h2_def by (rule call_preserves [OF sc i1])
  have w1: "\<forall>t \<in> set (call j (\<lambda>t. updatePoints t LOSS_POINTS)
                (call i (\<lambda>t. updatePoints t WIN_POINTS) h2)). pointsInvariant t"
    by (rule call_preserves [OF loss call_preserves [OF win i2]])
  have w2: "\<forall>t \<in> set (call i (\<lambda>t. updatePoints t LOSS_POINTS)
                (call j (\<lambda>t. updatePoints t WIN_POINTS) h2)). pointsInvariant t"
    by (rule call_preserves [OF loss call_preserves [OF win i2]])
  have "updateMatchResults h i j s1 s2 =
      (if s1 > s2 then call j (\<lambda>t. updatePoints t LOSS_POINTS)
                (call i (\<lambda>t. updatePoints t WIN_POINTS) h2)
       else if s2 > s1 then call i (\<lambda>t. updatePoints t LOSS_POINTS)
                (call j (\<lambda>t. updatePoints t WIN_POINTS) h2)
       else h2)"
    by (simp add: updateMatchResults_def h1_def h2_def Let_def)
  with i2 w1 w2 show ?thesis
    by (simp split: if_splits)
qed

lemma playMatches_pointsInvariant:
  assumes "playMatches rnd ps (h, g, pos) = Some (h', g', pos')"
    and "\<forall>t \<in> set h. pointsInvariant t"
  shows "\<forall>t \<in> set h'. pointsInvariant t"
  using assms
proof (induction ps arbitrary: h g pos)
  case Nil
  then show ?case by simp
next
  case (Cons p ps)
  obtain i j where p: "p = (i, j)" by (cases p)
  from Cons.prems(1) obtain s1 s2 pos1 where
    g: "simulateGamePoisson rnd (ranking (h ! i)) (ranking (h ! j)) None None pos
          = Some ((s1, s2), pos1)"
    and r: "playMatches rnd ps (updateMatchResults h i j s1 s2,
              recordGroupStageMatch g (name (updateMatchResults h i j s1 s2 ! i))
                (name (updateMatchResults h i j s1 s2 ! j)), pos1) = Some (h', g', pos')"
    unfolding p by (auto simp: Let_def split: option.splits)
  from Cons.IH [OF r updateMatchResults_pointsInvariant [OF Cons.prems(2)]]
  show ?case .
qed

lemma playGroupStage_pointsInvariant:
  assumes "playGroupStage rnd teams st = Some (table, st')"
  shows "\<forall>t \<in> set table. pointsInvariant t"
proof -
  let ?fresh = "map (\<lambda>team. newTeam (name team) (ranking team)) teams"
  from assms obtain results g' pos' where
    p: "playMatches rnd (schedule (length ?fresh)) (?fresh, fst st, snd st) = Some (results, g', pos')"
    and t: "table = sortTeamsByPerformance results"
    by (auto simp: playGroupStage_def Let_def split: option.splits)
  have "\<forall>t \<in> set ?fresh. pointsInvariant t"
    by (simp add: pointsInvariant_newTeam)
  from playMatches_pointsInvariant [OF p this] show ?thesis
    by (simp add: t sortTeamsByPerformance_def)
qed

lemma simulateGroupStages_pointsInvariant:
  assumes "simulateGroupStages rnd groups st = Some (groupResults, st')"
  shows "\<forall>t \<in> set (concat groupResults). pointsInvariant t"
  using assms
proof (induction groups arbitrary: st groupResults)
  case Nil
  then show ?case by simp
next
  case (Cons grp groups)
  from Cons.prems obtain table st1 rest where
    a: "playGroupStage rnd (map (\<lambda>(n, r). newTeam n r) grp) st = Some (table, st1)"
    and b: "simulateGroupStages rnd groups st1 = Some (rest, st')"
    and c: "groupResults = table # rest"
    by (auto split: option.splits)
  from playGroupStage_pointsInvariant [OF a] Cons.IH [OF b] show ?case
    by (auto simp: c)
qed

lemma rankTeamsForKnockout_subset:
  "set (rankTeamsForKnockout groupResults) \<subseteq> set (concat groupResults)"
proof -
  have "set (rankTeamsForKnockout groupResults)
          \<subseteq> set (sortTeamsByPerformance (concat groupResults))"
    unfolding rankTeamsForKnockout_def by (rule set_take_subset)
  then show ?thesis
    by (simp add: sortTeamsByPerformance_def)
qed

text \<open>
  C9. \<open>points = 2 * wins + 1 * losses\<close> holds of every team at every point of the
  simulation: every match update preserves it; it holds of the fresh teams of a group
  and so after every prefix of the group's matches; it holds of every team in the
  standings of \<open>simulateGroupStages\<close> and of the teams ranked for the knockout stage,
  which changes no team.
\<close>

theorem points_are_two_wins_plus_losses:
  "((\<forall>t \<in> set h. pointsInvariant t) \<longrightarrow>
      (\<forall>t \<in> set (updateMatchResults h i j s1 s2). pointsInvariant t))
   \<and> (playMatches rnd (take k (schedule (length teams)))
         (map (\<lambda>team. newTeam (name team) (ranking team)) teams, g, pos) = Some (results, g', pos')
       \<longrightarrow> (\<forall>t \<in> set results. points t = 2 * wins t + 1 * losses t))
   \<and> (simulateGroupStages rnd groups st = Some (groupResults, st')
       \<longrightarrow> (\<forall>t \<in> set (concat groupResults). points t = 2 * wins t + 1 * losses t)
         \<and> (\<forall>t \<in> set (rankTeamsForKnockout groupResults). points t = 2 * wins t + 1 * losses t))"
proof (intro conjI impI)
  assume "\<forall>t \<in> set h. pointsInvariant t"
  then show "\<forall>t \<in> set (updateMatchResults h i j s1 s2). pointsInvariant t"
    by (rule updateMatchResults_pointsInvariant)
next
  let ?fresh = "map (\<lambda>team. newTeam (name team) (ranking team)) teams"
  assume p: "playMatches rnd (take k (schedule (length teams))) (?fresh, g, pos)
               = Some (results, g', pos')"
  have "\<forall>t \<in> set ?fresh. pointsInvariant t"
    by (simp add: pointsInvariant_newTeam)
  from playMatches_pointsInvariant [OF p this]
  show "\<forall>t \<in> set results. points t = 2 * wins t + 1 * losses t"
    by (simp add: pointsInvariant_def WIN_POINTS_def LOSS_POINTS_def)
next
  assume s: "simulateGroupStages rnd groups st = Some (groupResults, st')"
  from simulateGroupStages_pointsInvariant [OF s]
  show c: "\<forall>t \<in> set (concat groupResults). points t = 2 * wins t + 1 * losses t"
    by (simp add: pointsInvariant_def WIN_POINTS_def LOSS_POINTS_def)
  with rankTeamsForKnockout_subset [of groupResults]
  show "\<forall>t \<in> set (rankTeamsForKnockout groupResults). points t = 2 * wins t + 1 * losses t"
    by blast
qed

text \<open>
  Runs on sample draws: the loop of the score generator goes on after a draw above one
  half when lambda is at least 1, and stops at a draw of 0.
\<close>

lemma poissonLoop_exit:
  "\<not> p * rnd pos > L \<Longrightarrow> poissonLoop rnd L k p pos = Some (k + 1, pos + 1)"
  by (subst poissonLoop.simps) simp

lemma poissonLoop_again:
  "p * rnd pos > L \<Longrightarrow>
     poissonLoop rnd L k p pos = poissonLoop rnd L (k + 1) (p * rnd pos) (pos + 1)"
  by (subst poissonLoop.simps) simp

lemma exp_below:
  fixes x p :: real
  assumes "x \<le> - 1" and "1 / 2 < p"
  shows "exp x < p"
proof -
  have "1 + (- x) \<le> exp (- x)"
    by (rule exp_ge_add_one_self)
  with assms(1) have "2 \<le> exp (- x)" by simp
  then have "inverse (exp (- x)) \<le> inverse 2"
    by (intro le_imp_inverse_le) simp_all
  then have "exp x \<le> 1 / 2"
    by (simp add: exp_minus)
  with assms(2) show ?thesis by simp
qed

lemma poissonLoop_again_half:
  assumes "x \<le> - 1" and "1 / 2 < p * rnd pos"
  shows "poissonLoop rnd (exp x) k p pos = poissonLoop rnd (exp x) (k + 1) (p * rnd pos) (pos + 1)"
  by (rule poissonLoop_again) (rule exp_below [OF assms])

lemma poissonLoop_exit_zero:
  assumes "p * rnd pos \<le> 0"
  shows "poissonLoop rnd (exp x) k p pos = Some (k + 1, pos + 1)"
proof (rule poissonLoop_exit)
  have "0 < exp x" by simp
  with assms show "\<not> exp x < p * rnd pos" by linarith
qed

lemmas run_game = simulateGamePoisson_def calculateExpectedPoints_def defaultArg_def
  generatePoissonScore_def poissonLoop_again_half poissonLoop_exit_zero replay_def Let_def

lemma samplePair_match:
  "playMatches (replay [9 / 10, 0, 0]) (take 1 (schedule (length samplePair)))
     (map (\<lambda>team. newTeam (name team) (ranking team)) samplePair, Map.empty, 0)
   = Some (samplePairPlayed, recordGroupStageMatch Map.empty ''Canada'' ''Greece'', 3)"
  by (simp add: samplePair_def samplePairPlayed_def schedule_def upt_rec newTeam_def run_game
      updateMatchResults_def call_def updateScores_def updatePoints_def
      WIN_POINTS_def LOSS_POINTS_def)

lemma samplePair_groups:
  "simulateGroupStages (replay [9 / 10, 0, 0]) [[(''Canada'', 7), (''Greece'', 14)]] (Map.empty, 0)
   = Some ([samplePairPlayed], recordGroupStageMatch Map.empty ''Canada'' ''Greece'', 3)"
  by (simp add: playGroupStage_def samplePairPlayed_def schedule_def upt_rec newTeam_def run_game
      updateMatchResults_def call_def updateScores_def updatePoints_def
      WIN_POINTS_def LOSS_POINTS_def sortTeamsByPerformance_def goalDifference_def)

text \<open>Canada beats Greece 1:0 in a group of two.\<close>

theorem points_are_two_wins_plus_losses_witness:
  "list_all pointsInvariant samplePairPlayed
   \<and> list_all pointsInvariant (updateMatchResults samplePairPlayed 1 0 90 88)
   \<and> playMatches (replay [9 / 10, 0, 0]) (take 1 (schedule (length samplePair)))
       (map (\<lambda>team. newTeam (name team) (ranking team)) samplePair, Map.empty, 0)
     = Some (samplePairPlayed, recordGroupStageMatch Map.empty ''Canada'' ''Greece'', 3)
   \<and> list_all (\<lambda>t. points t = 2 * wins t + 1 * losses t) samplePairPlayed
   \<and> simulateGroupStages (replay [9 / 10, 0, 0]) [[(''Canada'', 7), (''Greece'', 14)]] (Map.empty, 0)
     = Some ([samplePairPlayed], recordGroupStageMatch Map.empty ''Canada'' ''Greece'', 3)
   \<and> list_all (\<lambda>t. points t = 2 * wins t + 1 * losses t) (rankTeamsForKnockout [samplePairPlayed])"
proof -
  have i: "\<forall>t \<in> set samplePairPlayed. pointsInvariant t"
    by (simp add: samplePairPlayed_def pointsInvariant_def WIN_POINTS_def LOSS_POINTS_def)
  note t = points_are_two_wins_plus_losses [of samplePairPlayed 1 0 90 88
      "replay [9 / 10, 0, 0]" 1 samplePair Map.empty 0 samplePairPlayed
      "recordGroupStageMatch Map.empty ''Canada'' ''Greece''" 3
      "[[(''Canada'', 7), (''Greece'', 14)]]" "(Map.empty, 0)" "[samplePairPlayed]"
      "(recordGroupStageMatch Map.empty ''Canada'' ''Greece'', 3)"]
  from t i samplePair_match samplePair_groups show ?thesis
    unfolding list_all_iff by blast
qed

section \<open>The score generator\<close>

lemma uniform01_replay:
  "list_all (\<lambda>x. 0 \<le> x \<and> x < 1) xs \<Longrightarrow> uniform01 (replay xs)"
  by (auto simp: uniform01_def replay_def list_all_length)

lemma poissonLoop_counts:
  assumes "poissonLoop rnd L k p pos = Some r"
  shows "k < fst r \<and> pos < snd r"
proof (rule poissonLoop.raw_induct
    [where P = "\<lambda>rnd L k p pos r. k < fst r \<and> pos < snd r", OF _ assms])
  fix loop :: "rand \<Rightarrow> real \<Rightarrow> int \<Rightarrow> real \<Rightarrow> nat \<Rightarrow> (int \<times> nat) option"
  fix rnd L k p pos r
  assume IH: "\<And>rnd L k p pos r. loop rnd L k p pos = Some r \<Longrightarrow> k < fst r \<and> pos < snd r"
    and body: "(if L < p * rnd pos then loop rnd L (k + 1) (p * rnd pos) (pos + 1)
                else Some (k + 1, pos + 1)) = Some r"
  show "k < fst r \<and> pos < snd r"
  proof (cases "L < p * rnd pos")
    case True
    with body have "loop rnd L (k + 1) (p * rnd pos) (pos + 1) = Some r" by simp
    from IH [OF this] show ?thesis by simp
  next
    case False
    with body show ?thesis by auto
  qed
qed

lemma generatePoissonScore_nonneg:
  assumes "generatePoissonScore rnd lam pos = Some (k, pos')"
  shows "0 \<le> k"
proof -
  from assms obtain k' where
    l: "poissonLoop rnd (exp (- lam)) 0 1 pos = Some (k', pos')" and k: "k = k' - 1"
    by (auto simp: generatePoissonScore_def split: option.splits)
  from poissonLoop_counts [OF l] k show ?thesis by simp
qed

lemma generatePoissonScore_degenerate:
  assumes "lam \<le> 0" and "uniform01 rnd"
  shows "generatePoissonScore rnd lam pos = Some (0, pos + 1)"
proof -
  have "rnd pos < 1"
    using assms(2) by (simp add: uniform01_def)
  moreover have "1 \<le> exp (- lam)"
    using assms(1) by simp
  ultimately have "\<not> 1 * rnd pos > exp (- lam)"
    by linarith
  then have "poissonLoop rnd (exp (- lam)) 0 1 pos = Some (0 + 1, pos + 1)"
    by (rule poissonLoop_exit)
  then show ?thesis
    by (simp add: generatePoissonScore_def)
qed

text \<open>
  C7. Whenever \<open>generatePoissonScore\<close> returns, the score is an integer that is at
  least 0, for every lambda and every sequence of draws. For \<open>lambda \<le> 0\<close> and draws in
  \<open>[0, 1)\<close> it returns, after one draw, the score 0: the first draw is below 1 and
  \<open>L = exp (- lambda)\<close> is at least 1.
\<close>

theorem generatePoissonScore_result:
  "(generatePoissonScore rnd lam pos = Some (k, pos') \<longrightarrow> 0 \<le> k)
   \<and> (lam \<le> 0 \<and> uniform01 rnd \<longrightarrow> generatePoissonScore rnd lam pos = Some (0, pos + 1))"
  using generatePoissonScore_nonneg generatePoissonScore_degenerate by blast

lemma generatePoissonScore_example:
  "generatePoissonScore (replay [9 / 10, 9 / 10, 0]) 80 0 = Some (2, 3)"
  by (simp add: generatePoissonScore_def poissonLoop_again_half poissonLoop_exit_zero replay_def)

text \<open>Two draws of 0.9 and one of 0 with lambda 80; one draw of 0.5 with lambda 0.\<close>

theorem generatePoissonScore_result_witness:
  "generatePoissonScore (replay [9 / 10, 9 / 10, 0]) 80 0 = Some (2, 3) \<and> (0::int) \<le> 2
   \<and> (0::real) \<le> 0 \<and> uniform01 (replay [1 / 2])
   \<and> generatePoissonScore (replay [1 / 2]) 0 0 = Some (0, 1)"
proof -
  have u: "uniform01 (replay [1 / 2])"
    by (rule uniform01_replay) simp
  from generatePoissonScore_result [of "replay [9 / 10, 9 / 10, 0]" 80 0 2 3]
    generatePoissonScore_result [of "replay [1 / 2]" 0 0] generatePoissonScore_example u
  show ?thesis by simp
qed

section \<open>Exhibition form\<close>

lemma formLoop_filter:
  assumes "\<forall>e. (team, e) \<in> set exhibitions \<longrightarrow> e = NotAnArray"
  shows "formLoop parseResult exhibitions tf =
           formLoop parseResult (filter (\<lambda>(t, e). t \<noteq> team) exhibitions) tf"
  using assms
proof (induction exhibitions arbitrary: tf)
  case Nil
  then show ?case by simp
next
  case (Cons x rest)
  obtain t e where x: "x = (t, e)" by (cases x)
  from Cons.prems have r: "\<forall>e. (team, e) \<in> set rest \<longrightarrow> e = NotAnArray"
    by simp
  show ?case
  proof (cases e)
    case NotAnArray
    then show ?thesis
      using Cons.IH [OF r] x by simp
  next
    case (Matches ms)
    with Cons.prems x have t: "t \<noteq> team" by auto
    show ?thesis
    proof (cases "sumDifferences parseResult ms 0")
      case (Inl err)
      then show ?thesis using t x Matches by simp
    next
      case (Inr d)
      have "formLoop parseResult rest (tf(t \<mapsto> d)) =
              formLoop parseResult (filter (\<lambda>(t, e). t \<noteq> team) rest) (tf(t \<mapsto> d))"
        by (rule Cons.IH [OF r])
      then show ?thesis
        using Inr t x Matches by simp
    qed
  qed
qed

lemma formLoop_absent:
  assumes "formLoop parseResult exhibitions tf = Inr tf'"
    and "\<forall>e. (team, e) \<in> set exhibitions \<longrightarrow> e = NotAnArray"
  shows "tf' team = tf team"
  using assms
proof (induction exhibitions arbitrary: tf)
  case Nil
  then show ?case by simp
next
  case (Cons x rest)
  obtain t e where x: "x = (t, e)" by (cases x)
  from Cons.prems have r: "\<forall>e. (team, e) \<in> set rest \<longrightarrow> e = NotAnArray"
    by simp
  show ?case
  proof (cases e)
    case NotAnArray
    with Cons.prems(1) x have "formLoop parseResult rest tf = Inr tf'" by simp
    from Cons.IH [OF this r] show ?thesis .
  next
    case (Matches ms)
    with Cons.prems x have t: "t \<noteq> team" by auto
    show ?thesis
    proof (cases "sumDifferences parseResult ms 0")
      case (Inl err)
      then show ?thesis using Cons.prems(1) x Matches by simp
    next
      case (Inr d)
      with Cons.prems(1) x Matches
      have "formLoop parseResult rest (tf(t \<mapsto> d)) = Inr tf'" by simp
      from Cons.IH [OF this r] t show ?thesis by simp
    qed
  qed
qed

lemma simulateGamePoisson_default:
  "simulateGamePoisson rnd r1 r2 None f pos = simulateGamePoisson rnd r1 r2 (Some 0) f pos"
  "simulateGamePoisson rnd r1 r2 f None pos = simulateGamePoisson rnd r1 r2 f (Some 0) pos"
  by (simp_all add: simulateGamePoisson_def defaultArg_def)

lemma defaultArg_forms:
  assumes "tf team = None"
  shows "defaultArg 0 ((tf(team \<mapsto> 0)) a) = defaultArg 0 (tf a)"
  using assms by (cases "a = team") (simp_all add: defaultArg_def)

lemma simulateGamePoisson_forms:
  assumes "tf team = None"
  shows "simulateGamePoisson rnd r1 r2 ((tf(team \<mapsto> 0)) a) ((tf(team \<mapsto> 0)) b) pos =
           simulateGamePoisson rnd r1 r2 (tf a) (tf b) pos"
proof -
  have "defaultArg 0 ((tf(team \<mapsto> 0)) a) = defaultArg 0 (tf a)"
    "defaultArg 0 ((tf(team \<mapsto> 0)) b) = defaultArg 0 (tf b)"
    using assms by (rule defaultArg_forms)+
  then show ?thesis
    by (simp only: simulateGamePoisson_def)
qed

lemma knockoutMatch_forms:
  assumes "tf team = None"
  shows "knockoutMatch (tf(team \<mapsto> 0)) rnd team1 team2 pos = knockoutMatch tf rnd team1 team2 pos"
proof -
  have "simulateGamePoisson rnd (ranking team1) (ranking team2)
          ((tf(team \<mapsto> 0)) (name team1)) ((tf(team \<mapsto> 0)) (name team2)) pos =
        simulateGamePoisson rnd (ranking team1) (ranking team2)
          (tf (name team1)) (tf (name team2)) pos"
    using assms by (rule simulateGamePoisson_forms)
  then show ?thesis
    by (simp only: knockoutMatch_def)
qed

lemma quarterFinalRound_forms:
  assumes "tf team = None"
  shows "quarterFinalRound (tf(team \<mapsto> 0)) rnd qf semis pos = quarterFinalRound tf rnd qf semis pos"
proof (induction qf arbitrary: semis pos)
  case Nil
  then show ?case by simp
next
  case (Cons p qf)
  obtain team1 team2 where p: "p = (team1, team2)" by (cases p)
  have k: "knockoutMatch (tf(team \<mapsto> 0)) rnd team1 team2 pos = knockoutMatch tf rnd team1 team2 pos"
    using assms by (rule knockoutMatch_forms)
  show ?case
  proof (cases "knockoutMatch tf rnd team1 team2 pos")
    case None
    with k show ?thesis by (simp add: p del: fun_upd_apply)
  next
    case (Some r)
    obtain w pos' where r: "r = (w, pos')" by (cases r)
    have "quarterFinalRound (tf(team \<mapsto> 0)) rnd qf (semis @ [w]) pos' =
          quarterFinalRound tf rnd qf (semis @ [w]) pos'"
      by (rule Cons.IH)
    with k Some r show ?thesis by (simp add: p del: fun_upd_apply)
  qed
qed

lemma semiFinalRound_forms:
  assumes "tf team = None"
  shows "semiFinalRound (tf(team \<mapsto> 0)) rnd semis finals pos = semiFinalRound tf rnd semis finals pos"
proof (induction "length semis" arbitrary: semis finals pos rule: less_induct)
  case less
  show ?case
  proof (cases semis)
    case Nil
    then show ?thesis by simp
  next
    case (Cons team1 rest1)
    show ?thesis
    proof (cases rest1)
      case Nil
      with Cons show ?thesis by simp
    next
      case c2: (Cons team2 rest)
      have k: "knockoutMatch (tf(team \<mapsto> 0)) rnd team1 team2 pos =
               knockoutMatch tf rnd team1 team2 pos"
        using assms by (rule knockoutMatch_forms)
      show ?thesis
      proof (cases "knockoutMatch tf rnd team1 team2 pos")
        case None
        with k show ?thesis by (simp add: Cons c2 del: fun_upd_apply)
      next
        case (Some r)
        obtain w pos' where r: "r = (w, pos')" by (cases r)
        have "length rest < length semis"
          by (simp add: Cons c2)
        then have "semiFinalRound (tf(team \<mapsto> 0)) rnd rest (finals @ [w]) pos' =
              semiFinalRound tf rnd rest (finals @ [w]) pos'"
          by (rule less.hyps)
        with k Some r show ?thesis by (simp add: Cons c2 del: fun_upd_apply)
      qed
    qed
  qed
qed

lemma playFinal_forms:
  assumes "tf team = None"
  shows "playFinal (tf(team \<mapsto> 0)) rnd finals pos = playFinal tf rnd finals pos"
proof (cases finals)
  case Nil
  then show ?thesis by (simp add: playFinal_def)
next
  case (Cons finalist1 rest1)
  show ?thesis
  proof (cases rest1)
    case Nil
    with Cons show ?thesis by (simp add: playFinal_def)
  next
    case c2: (Cons finalist2 rest)
    have "simulateGamePoisson rnd (ranking finalist1) (ranking finalist2)
            ((tf(team \<mapsto> 0)) (name finalist1)) ((tf(team \<mapsto> 0)) (name finalist2)) pos =
          simulateGamePoisson rnd (ranking finalist1) (ranking finalist2)
            (tf (name finalist1)) (tf (name finalist2)) pos"
      using assms by (rule simulateGamePoisson_forms)
    then show ?thesis
      by (simp only: playFinal_def Cons c2 list.case)
  qed
qed

lemma simulateKnockoutStage_forms:
  assumes "tf team = None"
  shows "simulateKnockoutStage (tf(team \<mapsto> 0)) rnd qf pos = simulateKnockoutStage tf rnd qf pos"
proof -
  have "\<And>semis pos. quarterFinalRound (tf(team \<mapsto> 0)) rnd qf semis pos =
          quarterFinalRound tf rnd qf semis pos"
    using assms by (rule quarterFinalRound_forms)
  moreover have "\<And>semis finals pos. semiFinalRound (tf(team \<mapsto> 0)) rnd semis finals pos =
          semiFinalRound tf rnd semis finals pos"
    using assms by (rule semiFinalRound_forms)
  moreover have "\<And>finals pos. playFinal (tf(team \<mapsto> 0)) rnd finals pos =
          playFinal tf rnd finals pos"
    using assms by (rule playFinal_forms)
  ultimately show ?thesis
    by (simp only: simulateKnockoutStage_def)
qed

text \<open>
  The guard of \<open>calculateCumulativeForm\<close>: an entry that is not an array changes
  nothing in its result, the forms have no entry for that team, and a knockout stage
  run with these forms is the one run with form 0 for the team.
\<close>

lemma calculateCumulativeForm_skips:
  assumes "\<forall>e. (team, e) \<in> set exhibitions \<longrightarrow> e = NotAnArray"
  shows "calculateCumulativeForm parseResult exhibitions =
           calculateCumulativeForm parseResult (filter (\<lambda>(t, e). t \<noteq> team) exhibitions)
       \<and> (calculateCumulativeForm parseResult exhibitions = Inr tf \<longrightarrow>
            tf team = None
          \<and> simulateGamePoisson rnd r1 r2 (tf team) f pos = simulateGamePoisson rnd r1 r2 (Some 0) f pos
          \<and> simulateGamePoisson rnd r1 r2 f (tf team) pos = simulateGamePoisson rnd r1 r2 f (Some 0) pos
          \<and> simulateKnockoutStage tf rnd qf pos = simulateKnockoutStage (tf(team \<mapsto> 0)) rnd qf pos)"
proof (intro conjI impI)
  show "calculateCumulativeForm parseResult exhibitions =
           calculateCumulativeForm parseResult (filter (\<lambda>(t, e). t \<noteq> team) exhibitions)"
    unfolding calculateCumulativeForm_def by (rule formLoop_filter [OF assms])
  assume "calculateCumulativeForm parseResult exhibitions = Inr tf"
  then have "formLoop parseResult exhibitions Map.empty = Inr tf"
    by (simp add: calculateCumulativeForm_def)
  from formLoop_absent [OF this assms] show none: "tf team = None"
    by simp
  show "simulateGamePoisson rnd r1 r2 (tf team) f pos = simulateGamePoisson rnd r1 r2 (Some 0) f pos"
    unfolding none by (rule simulateGamePoisson_default)
  show "simulateGamePoisson rnd r1 r2 f (tf team) pos = simulateGamePoisson rnd r1 r2 f (Some 0) pos"
    unfolding none by (rule simulateGamePoisson_default)
  show "simulateKnockoutStage tf rnd qf pos = simulateKnockoutStage (tf(team \<mapsto> 0)) rnd qf pos"
    using none by (rule simulateKnockoutStage_forms [symmetric])
qed

text \<open>\<open>displayFriendlyMatches\<close> has no such guard.\<close>

lemma displayFriendlyMatches_nonArray:
  assumes "(team, NotAnArray) \<in> set exhibitions"
  shows "displayFriendlyMatches exhibitions = Inl TypeError"
  using assms
proof (induction exhibitions)
  case Nil
  then show ?case by simp
next
  case (Cons x rest)
  obtain t e where x: "x = (t, e)" by (cases x)
  show ?case
  proof (cases e)
    case NotAnArray
    then show ?thesis by (simp add: x)
  next
    case (Matches ms)
    with Cons x show ?thesis by auto
  qed
qed

lemma displayFriendlyMatches_arrays:
  assumes "\<forall>t e. (t, e) \<in> set exhibitions \<longrightarrow> e \<noteq> NotAnArray"
  shows "displayFriendlyMatches exhibitions = Inr ()"
  using assms
proof (induction exhibitions)
  case Nil
  then show ?case by simp
next
  case (Cons x rest)
  obtain t e where x: "x = (t, e)" by (cases x)
  from Cons.prems x obtain ms where e: "e = Matches ms"
    by (cases e) auto
  from Cons.prems have "\<forall>t e. (t, e) \<in> set rest \<longrightarrow> e \<noteq> NotAnArray"
    by simp
  from Cons.IH [OF this] show ?case
    by (simp add: x e)
qed

text \<open>So the program ends with a TypeError, before any match is played.\<close>

lemma simulateTournament_nonArray:
  assumes "(team, NotAnArray) \<in> set exhibitions"
  shows "simulateTournament parseResult exhibitions groups rnd = Some (Inl TypeError)"
proof (cases "calculateCumulativeForm parseResult exhibitions")
  case (Inl e)
  then show ?thesis
    by (cases e) (simp add: simulateTournament_def)
next
  case (Inr teamForms)
  with displayFriendlyMatches_nonArray [OF assms] show ?thesis
    by (simp add: simulateTournament_def)
qed

text \<open>
  C8. An exhibition entry that is not an array is skipped by
  \<open>calculateCumulativeForm\<close>, which returns forms without the team, but the program
  does not go on: \<open>simulateTournament\<close> starts with \<open>displayFriendlyMatches\<close>, which
  raises a TypeError on that entry. The program aborts before the group stage, and no
  knockout match is played with form 0 for the team. Here Germany has two exhibition
  matches and the entry of Canada is not an array.
\<close>

theorem simulateTournament_nonArray_aborts:
  "calculateCumulativeForm sampleResult sampleExhibitions = Inr [''Germany'' \<mapsto> - 10]
   \<and> displayFriendlyMatches sampleExhibitions = Inl TypeError
   \<and> simulateTournament sampleResult sampleExhibitions sampleGroups (replay []) =
       Some (Inl TypeError)"
proof -
  have c: "calculateCumulativeForm sampleResult sampleExhibitions = Inr [''Germany'' \<mapsto> - 10]"
    by (simp add: calculateCumulativeForm_def sampleExhibitions_def sampleResult_def)
  have m: "(''Canada'', NotAnArray) \<in> set sampleExhibitions"
    by (simp add: sampleExhibitions_def)
  from c displayFriendlyMatches_nonArray [OF m] simulateTournament_nonArray [OF m]
  show ?thesis by simp
qed

section \<open>The knockout draw\<close>

subsection \<open>The match record\<close>

lemma members_recordGroupStageMatch:
  "members (recordGroupStageMatch g a b) t =
     members g t \<union> (if t = a then {b} else {}) \<union> (if t = b then {a} else {})"
  by (auto simp: recordGroupStageMatch_def members_def Let_def split: option.splits if_splits)

lemma members_foldl_record:
  "members (foldl (\<lambda>g (a, b). recordGroupStageMatch g a b) g ms) t =
     members g t \<union> {b. (t, b) \<in> set ms} \<union> {a. (a, t) \<in> set ms}"
proof (induction ms arbitrary: g)
  case Nil
  then show ?case by simp
next
  case (Cons m ms)
  obtain a b where m: "m = (a, b)" by (cases m)
  show ?case
    unfolding m by (auto simp: Cons.IH members_recordGroupStageMatch split: if_splits)
qed

lemma isMatchAlreadyPlayed_members:
  "isMatchAlreadyPlayed g team1 team2 \<longleftrightarrow> name team2 \<in> members g (name team1)"
  by (simp add: isMatchAlreadyPlayed_def members_def split: option.splits)

lemma isMatchAlreadyPlayed_historyOf:
  "isMatchAlreadyPlayed (historyOf ms) team1 team2 \<longleftrightarrow>
     (name team1, name team2) \<in> set ms \<or> (name team2, name team1) \<in> set ms"
proof -
  have "members Map.empty (name team1) = {}"
    by (simp add: members_def)
  then show ?thesis
    by (auto simp: isMatchAlreadyPlayed_members historyOf_def members_foldl_record)
qed

lemma historyOf_Nil: "historyOf [] = Map.empty"
  by (simp add: historyOf_def)

lemma historyOf_snoc: "recordGroupStageMatch (historyOf ms) a b = historyOf (ms @ [(a, b)])"
  by (simp add: historyOf_def)

text \<open>The record the group stage leaves is the history of some list of matches.\<close>

lemma playMatches_history:
  assumes "playMatches rnd ps (h, historyOf ms, pos) = Some (h', g', pos')"
  shows "\<exists>ms'. g' = historyOf ms'"
  using assms
proof (induction ps arbitrary: h ms pos)
  case Nil
  then show ?case by auto
next
  case (Cons p ps)
  obtain i j where p: "p = (i, j)" by (cases p)
  from Cons.prems obtain s1 s2 pos1 where
    "playMatches rnd ps (updateMatchResults h i j s1 s2,
       recordGroupStageMatch (historyOf ms) (name (updateMatchResults h i j s1 s2 ! i))
         (name (updateMatchResults h i j s1 s2 ! j)), pos1)
     = Some (h', g', pos')"
    unfolding p by (auto simp: Let_def split: option.splits)
  then show ?case
    unfolding historyOf_snoc by (rule Cons.IH)
qed

lemma playGroupStage_history:
  assumes "playGroupStage rnd teams (historyOf ms, pos) = Some (table, g', pos')"
  shows "\<exists>ms'. g' = historyOf ms'"
proof -
  from assms obtain results where
    "playMatches rnd (schedule (length teams))
       (map (\<lambda>team. newTeam (name team) (ranking team)) teams, historyOf ms, pos)
     = Some (results, g', pos')"
    by (auto simp: playGroupStage_def Let_def split: option.splits)
  then show ?thesis by (rule playMatches_history)
qed

lemma simulateGroupStages_history:
  assumes "simulateGroupStages rnd groups (historyOf ms, pos) = Some (groupResults, g', pos')"
  shows "\<exists>ms'. g' = historyOf ms'"
  using assms
proof (induction groups arbitrary: ms pos groupResults)
  case Nil
  then show ?case by auto
next
  case (Cons grp groups)
  from Cons.prems obtain table g1 pos1 rest where
    a: "playGroupStage rnd (map (\<lambda>(n, r). newTeam n r) grp) (historyOf ms, pos)
          = Some (table, g1, pos1)"
    and b: "simulateGroupStages rnd groups (g1, pos1) = Some (rest, g', pos')"
    by (auto split: option.splits)
  from playGroupStage_history [OF a] obtain ms1 where "g1 = historyOf ms1" ..
  with b show ?case
    using Cons.IH by blast
qed

lemma roundRobin_4:
  "roundRobin [a, b, c, d] = [(a, b), (a, c), (a, d), (b, c), (b, d), (c, d)]"
  by (simp add: roundRobin_def schedule_def upt_rec)

lemma groupsHistory_eq: "groupsHistory =
  [(''Canada'', ''Australia''), (''Canada'', ''Greece''), (''Canada'', ''Spain''),
   (''Australia'', ''Greece''), (''Australia'', ''Spain''), (''Greece'', ''Spain''),
   (''Germany'', ''France''), (''Germany'', ''Brazil''), (''Germany'', ''Japan''),
   (''France'', ''Brazil''), (''France'', ''Japan''), (''Brazil'', ''Japan''),
   (''United States'', ''Serbia''), (''United States'', ''South Sudan''),
   (''United States'', ''Puerto Rico''), (''Serbia'', ''South Sudan''),
   (''Serbia'', ''Puerto Rico''), (''South Sudan'', ''Puerto Rico'')]"
  by (simp add: groupsHistory_def roundRobin_4)

subsection \<open>One attempt\<close>

lemma pairHat_two:
  assumes "hats hat2 = [x, y]"
    and "pairHat g hats hat2 [a, b] (qf, used) = (qf', used')"
  shows "length qf' \<le> length qf + 2"
    and "length qf' = length qf + 2 \<Longrightarrow>
           \<exists>o1 o2. qf' = qf @ [(a, o1), (b, o2)]
             \<and> (o1 = x \<and> o2 = y \<or> o1 = y \<and> o2 = x)
             \<and> \<not> isMatchAlreadyPlayed g a o1 \<and> \<not> isMatchAlreadyPlayed g b o2"
  using assms
  by (auto simp: findOpponent_def split: option.splits if_splits)

lemma tryPairing_success:
  assumes D: "hats HatD = [d0, d1]" and E: "hats HatE = [e0, e1]"
    and F: "hats HatF = [fa, fb]" and G: "hats HatG = [ga, gb]"
    and len: "length (fst (tryPairing g hats ([], {}))) = 4"
  shows "\<exists>x y u v. fst (tryPairing g hats ([], {})) = [(d0, x), (d1, y), (e0, u), (e1, v)]
           \<and> (x = ga \<and> y = gb \<or> x = gb \<and> y = ga)
           \<and> (u = fa \<and> v = fb \<or> u = fb \<and> v = fa)
           \<and> \<not> isMatchAlreadyPlayed g d0 x \<and> \<not> isMatchAlreadyPlayed g d1 y
           \<and> \<not> isMatchAlreadyPlayed g e0 u \<and> \<not> isMatchAlreadyPlayed g e1 v"
proof -
  obtain q1 u1 where s1: "pairHat g hats HatG [d0, d1] ([], {}) = (q1, u1)"
    by (cases "pairHat g hats HatG [d0, d1] ([], {})")
  obtain q2 u2 where s2: "pairHat g hats HatF [e0, e1] (q1, u1) = (q2, u2)"
    by (cases "pairHat g hats HatF [e0, e1] (q1, u1)")
  have q2: "fst (tryPairing g hats ([], {})) = q2"
    unfolding tryPairing_def D E s1 s2 by simp
  have l1: "length q1 \<le> 2"
    using pairHat_two(1) [OF G s1] by simp
  have l2: "length q2 \<le> length q1 + 2"
    by (rule pairHat_two(1) [OF F s2])
  have l4: "length q2 = 4"
    using len q2 by simp
  have e1: "length q1 = length ([] :: (Team \<times> Team) list) + 2"
    using l1 l2 l4 by simp
  have e2: "length q2 = length q1 + 2"
    using l1 l2 l4 by simp
  from pairHat_two(2) [OF G s1 e1] obtain x y where
    x: "q1 = [(d0, x), (d1, y)]" "x = ga \<and> y = gb \<or> x = gb \<and> y = ga"
      "\<not> isMatchAlreadyPlayed g d0 x" "\<not> isMatchAlreadyPlayed g d1 y"
    by auto
  from pairHat_two(2) [OF F s2 e2] obtain u v where
    u: "q2 = q1 @ [(e0, u), (e1, v)]" "u = fa \<and> v = fb \<or> u = fb \<and> v = fa"
      "\<not> isMatchAlreadyPlayed g e0 u" "\<not> isMatchAlreadyPlayed g e1 v"
    by auto
  show ?thesis
    unfolding q2 using x u by auto
qed

lemma hatsOf_makeHats: "hatsOf ts (makeHats ts)"
  by (simp add: hatsOf_def makeHats_def)

lemma hatsOf_retry: "hatsOf ts hats \<Longrightarrow> hatsOf ts (retry hats)"
  by (auto simp: hatsOf_def retry_def reorderTeams_def)

lemma retry_retry: "hatsOf ts hats \<Longrightarrow> retry (retry hats) = hats"
  by (auto simp: hatsOf_def retry_def reorderTeams_def fun_eq_iff)

lemma retry_funpow:
  assumes "hatsOf ts hats"
  shows "(retry ^^ n) hats = hats \<or> (retry ^^ n) hats = retry hats"
proof (induction n)
  case 0
  then show ?case by simp
next
  case (Suc n)
  then show ?case using retry_retry [OF assms] by auto
qed

lemma paired_goodDraw:
  assumes "hatsOf ts hats" and "paired g hats"
  shows "goodDraw g ts (fst (tryPairing g hats ([], {})))"
proof -
  from assms(1) obtain fa fb ga gb where
    h: "hats HatD = [ts ! 0, ts ! 1]" "hats HatE = [ts ! 2, ts ! 3]"
       "hats HatF = [fa, fb]" "hats HatG = [ga, gb]"
    and f: "fa = ts ! 4 \<and> fb = ts ! 5 \<or> fa = ts ! 5 \<and> fb = ts ! 4"
    and g: "ga = ts ! 6 \<and> gb = ts ! 7 \<or> ga = ts ! 7 \<and> gb = ts ! 6"
    unfolding hatsOf_def by auto
  from tryPairing_success [OF h] assms(2) obtain x y u v where
    r: "fst (tryPairing g hats ([], {})) = [(ts ! 0, x), (ts ! 1, y), (ts ! 2, u), (ts ! 3, v)]"
       "x = ga \<and> y = gb \<or> x = gb \<and> y = ga" "u = fa \<and> v = fb \<or> u = fb \<and> v = fa"
       "\<not> isMatchAlreadyPlayed g (ts ! 0) x" "\<not> isMatchAlreadyPlayed g (ts ! 1) y"
       "\<not> isMatchAlreadyPlayed g (ts ! 2) u" "\<not> isMatchAlreadyPlayed g (ts ! 3) v"
    unfolding paired_def by blast
  show ?thesis
    unfolding goodDraw_def using r f g by auto
qed

lemma eight_teams:
  assumes "length ts = 8"
  shows "ts = [ts ! 0, ts ! 1, ts ! 2, ts ! 3, ts ! 4, ts ! 5, ts ! 6, ts ! 7]"
proof -
  have "[0 ..< 8] = [0, 1, 2, 3, 4, 5, 6, 7 :: nat]"
    by (simp add: upt_rec)
  then have "map ((!) ts) [0 ..< length ts] = map ((!) ts) [0, 1, 2, 3, 4, 5, 6, 7]"
    using assms by simp
  then show ?thesis
    by (simp add: map_nth)
qed

lemma goodDraw_valid:
  assumes "length ts = 8" and "goodDraw g ts qf"
  shows "length qf = 4" and "mset (teamsOf qf) = mset ts"
    and "\<forall>p \<in> set qf. hatPair ts p \<and> \<not> isMatchAlreadyPlayed g (fst p) (snd p)"
proof -
  from assms(2) obtain x y u v where
    r: "qf = [(ts ! 0, x), (ts ! 1, y), (ts ! 2, u), (ts ! 3, v)]"
       "x = ts ! 6 \<and> y = ts ! 7 \<or> x = ts ! 7 \<and> y = ts ! 6"
       "u = ts ! 4 \<and> v = ts ! 5 \<or> u = ts ! 5 \<and> v = ts ! 4"
       "\<not> isMatchAlreadyPlayed g (ts ! 0) x" "\<not> isMatchAlreadyPlayed g (ts ! 1) y"
       "\<not> isMatchAlreadyPlayed g (ts ! 2) u" "\<not> isMatchAlreadyPlayed g (ts ! 3) v"
    unfolding goodDraw_def by blast
  show "length qf = 4" using r(1) by simp
  have "mset (teamsOf qf) = mset [ts ! 0, ts ! 1, ts ! 2, ts ! 3, ts ! 4, ts ! 5, ts ! 6, ts ! 7]"
    using r(1,2,3) by (auto simp: teamsOf_def)
  moreover have "mset ts = mset [ts ! 0, ts ! 1, ts ! 2, ts ! 3, ts ! 4, ts ! 5, ts ! 6, ts ! 7]"
    by (rule arg_cong [where f = mset, OF eight_teams [OF assms(1)]])
  ultimately show "mset (teamsOf qf) = mset ts"
    by simp
  show "\<forall>p \<in> set qf. hatPair ts p \<and> \<not> isMatchAlreadyPlayed g (fst p) (snd p)"
    using r by (auto simp: hatPair_def)
qed

subsection \<open>The loop\<close>

lemma drawLoop_paired:
  "paired g hats \<Longrightarrow> drawLoop g hats ([], {}) = Some (fst (tryPairing g hats ([], {})))"
  by (subst drawLoop.simps) (simp add: paired_def)

lemma drawLoop_not_paired:
  "\<not> paired g hats \<Longrightarrow> drawLoop g hats ([], {}) = drawLoop g (retry hats) ([], {})"
  by (subst drawLoop.simps) (simp add: paired_def retry_def)

lemma drawLoop_never:
  assumes "drawLoop g h st = Some qf"
  shows "st = ([], {}) \<longrightarrow> (\<exists>n. h = (retry ^^ n) hats) \<longrightarrow> (\<exists>n. paired g ((retry ^^ n) hats))"
proof (rule drawLoop.raw_induct
    [where P = "\<lambda>g h st qf. st = ([], {}) \<longrightarrow> (\<exists>n. h = (retry ^^ n) hats)
                  \<longrightarrow> (\<exists>n. paired g ((retry ^^ n) hats))", OF _ assms])
  fix loop :: "matchRecord \<Rightarrow> hats \<Rightarrow> drawState \<Rightarrow> (Team \<times> Team) list option"
  fix g h st qf
  assume IH: "\<And>g h st qf. loop g h st = Some qf \<Longrightarrow>
      st = ([], {}) \<longrightarrow> (\<exists>n. h = (retry ^^ n) hats) \<longrightarrow> (\<exists>n. paired g ((retry ^^ n) hats))"
    and body: "(if length (fst (tryPairing g h st)) = 4 then Some (fst (tryPairing g h st))
                else loop g (reorderTeams (reorderTeams h HatG) HatF) ([], {})) = Some qf"
  show "st = ([], {}) \<longrightarrow> (\<exists>n. h = (retry ^^ n) hats) \<longrightarrow> (\<exists>n. paired g ((retry ^^ n) hats))"
  proof (intro impI)
    assume st: "st = ([], {})" and "\<exists>n. h = (retry ^^ n) hats"
    then obtain n where n: "h = (retry ^^ n) hats" by blast
    show "\<exists>n. paired g ((retry ^^ n) hats)"
    proof (cases "paired g h")
      case True
      then show ?thesis using n by blast
    next
      case False
      with body st have "loop g (retry h) ([], {}) = Some qf"
        by (simp add: paired_def retry_def)
      moreover have "\<exists>m. retry h = (retry ^^ m) hats"
        using n by (intro exI [of _ "Suc n"]) simp
      ultimately show ?thesis
        using IH by blast
    qed
  qed
qed

lemma drawLoop_None:
  assumes "hatsOf ts hats" and "\<not> paired g hats" and "\<not> paired g (retry hats)"
  shows "drawLoop g hats ([], {}) = None"
proof (rule ccontr)
  assume "drawLoop g hats ([], {}) \<noteq> None"
  then obtain qf where "drawLoop g hats ([], {}) = Some qf" by blast
  from drawLoop_never [OF this, of hats]
  obtain n where "paired g ((retry ^^ n) hats)"
    by (metis funpow_0)
  with retry_funpow [OF assms(1), of n] assms(2,3) show False by auto
qed

lemma drawLoop_None_iff:
  assumes "hatsOf ts hats"
  shows "drawLoop g hats ([], {}) = None \<longleftrightarrow> \<not> paired g hats \<and> \<not> paired g (retry hats)"
proof (cases "paired g hats")
  case True
  then show ?thesis by (simp add: drawLoop_paired)
next
  case False
  show ?thesis
  proof (cases "paired g (retry hats)")
    case True
    with False show ?thesis
      by (simp add: drawLoop_not_paired drawLoop_paired)
  next
    case f2: False
    with False drawLoop_None [OF assms] show ?thesis by simp
  qed
qed

lemma drawLoop_goodDraw:
  assumes "drawLoop g h st = Some qf"
  shows "st = ([], {}) \<longrightarrow> hatsOf ts h \<longrightarrow> goodDraw g ts qf"
proof (rule drawLoop.raw_induct
    [where P = "\<lambda>g h st qf. st = ([], {}) \<longrightarrow> hatsOf ts h \<longrightarrow> goodDraw g ts qf", OF _ assms])
  fix loop :: "matchRecord \<Rightarrow> hats \<Rightarrow> drawState \<Rightarrow> (Team \<times> Team) list option"
  fix g h st qf
  assume IH: "\<And>g h st qf. loop g h st = Some qf \<Longrightarrow>
      st = ([], {}) \<longrightarrow> hatsOf ts h \<longrightarrow> goodDraw g ts qf"
    and body: "(if length (fst (tryPairing g h st)) = 4 then Some (fst (tryPairing g h st))
                else loop g (reorderTeams (reorderTeams h HatG) HatF) ([], {})) = Some qf"
  show "st = ([], {}) \<longrightarrow> hatsOf ts h \<longrightarrow> goodDraw g ts qf"
  proof (intro impI)
    assume st: "st = ([], {})" and h: "hatsOf ts h"
    show "goodDraw g ts qf"
    proof (cases "paired g h")
      case True
      with body st have "qf = fst (tryPairing g h ([], {}))"
        by (simp add: paired_def)
      with paired_goodDraw [OF h True] show ?thesis by simp
    next
      case False
      with body st have "loop g (retry h) ([], {}) = Some qf"
        by (simp add: paired_def retry_def)
      with IH hatsOf_retry [OF h] show ?thesis by blast
    qed
  qed
qed

lemma drawKnockoutStage_eight:
  assumes "length ts = 8"
  shows "drawKnockoutStage g ts = map_option Inr (drawLoop g (makeHats ts) ([], {}))"
  using assms by (simp add: drawKnockoutStage_def)

lemma drawKnockoutStage_None_iff:
  assumes "length ts = 8"
  shows "drawKnockoutStage g ts = None \<longleftrightarrow>
           \<not> paired g (makeHats ts) \<and> \<not> paired g (retry (makeHats ts))"
  using assms drawLoop_None_iff [OF hatsOf_makeHats, of g ts]
  by (simp add: drawKnockoutStage_eight)

text \<open>
  C2. Every bracket \<open>drawKnockoutStage\<close> returns for eight ranked teams has four
  pairs; each pair is a team of hat D (ranks 1-2) with a team of hat G (ranks 7-8) or a
  team of hat E (ranks 3-4) with a team of hat F (ranks 5-6); no pair is a recorded
  group-stage match, in either order; and the eight teams are the teams of the four
  pairs, each once.
\<close>

theorem drawKnockoutStage_pairs:
  assumes "length ts = 8"
    and "drawKnockoutStage (historyOf ms) ts = Some (Inr qf)"
  shows "length qf = 4
       \<and> (\<forall>p \<in> set qf. hatPair ts p
             \<and> (name (fst p), name (snd p)) \<notin> set ms \<and> (name (snd p), name (fst p)) \<notin> set ms)
       \<and> mset (teamsOf qf) = mset ts"
proof -
  from assms have "drawLoop (historyOf ms) (makeHats ts) ([], {}) = Some qf"
    by (auto simp: drawKnockoutStage_eight)
  from drawLoop_goodDraw [OF this, of ts] have "goodDraw (historyOf ms) ts qf"
    by (simp add: hatsOf_makeHats)
  from goodDraw_valid [OF assms(1) this] show ?thesis
    by (simp add: isMatchAlreadyPlayed_historyOf)
qed

lemma retryTeams_paired:
  "\<not> paired (historyOf groupsHistory) (makeHats retryTeams)"
  "paired (historyOf groupsHistory) (retry (makeHats retryTeams))"
  "fst (tryPairing (historyOf groupsHistory) (retry (makeHats retryTeams)) ([], {})) =
     [(retryTeams ! 0, retryTeams ! 7), (retryTeams ! 1, retryTeams ! 6),
      (retryTeams ! 2, retryTeams ! 5), (retryTeams ! 3, retryTeams ! 4)]"
  by (simp_all add: paired_def tryPairing_def findOpponent_def makeHats_def retry_def
      reorderTeams_def isMatchAlreadyPlayed_historyOf groupsHistory_eq retryTeams_def
      seeded_def)

lemma retryTeams_draw:
  "drawKnockoutStage (historyOf groupsHistory) retryTeams =
     Some (Inr [(retryTeams ! 0, retryTeams ! 7), (retryTeams ! 1, retryTeams ! 6),
                (retryTeams ! 2, retryTeams ! 5), (retryTeams ! 3, retryTeams ! 4)])"
proof -
  have "length retryTeams = 8"
    by (simp add: retryTeams_def)
  then show ?thesis
    by (simp add: drawKnockoutStage_eight drawLoop_not_paired drawLoop_paired retryTeams_paired)
qed

text \<open>A draw that fails at first and succeeds after one rotation.\<close>

theorem drawKnockoutStage_pairs_witness:
  "length retryTeams = 8
   \<and> drawKnockoutStage (historyOf groupsHistory) retryTeams =
       Some (Inr [(retryTeams ! 0, retryTeams ! 7), (retryTeams ! 1, retryTeams ! 6),
                  (retryTeams ! 2, retryTeams ! 5), (retryTeams ! 3, retryTeams ! 4)])
   \<and> hatPair retryTeams (retryTeams ! 1, retryTeams ! 6)
   \<and> (''Canada'', ''United States'') \<notin> set groupsHistory
   \<and> (''United States'', ''Canada'') \<notin> set groupsHistory
   \<and> mset (teamsOf [(retryTeams ! 0, retryTeams ! 7), (retryTeams ! 1, retryTeams ! 6),
                     (retryTeams ! 2, retryTeams ! 5), (retryTeams ! 3, retryTeams ! 4)])
       = mset retryTeams"
proof -
  have len: "length retryTeams = 8"
    by (simp add: retryTeams_def)
  have nm: "name (retryTeams ! 1) = ''Canada''" "name (retryTeams ! 6) = ''United States''"
    by (simp_all add: retryTeams_def seeded_def)
  from drawKnockoutStage_pairs [OF len retryTeams_draw] len retryTeams_draw nm
  show ?thesis by simp
qed

lemma lockstep_not_paired:
  "\<not> paired (historyOf groupsHistory) (makeHats lockstepTeams)"
  "\<not> paired (historyOf groupsHistory) (retry (makeHats lockstepTeams))"
  by (simp_all add: paired_def tryPairing_def findOpponent_def makeHats_def retry_def
      reorderTeams_def isMatchAlreadyPlayed_historyOf groupsHistory_eq lockstepTeams_def
      seeded_def)

text \<open>
  C1. A bracket that respects the hats and avoids every recorded match need not be
  found: for the teams below such a bracket exists, and \<open>drawKnockoutStage\<close> does not
  return. Hats G and F are rotated together; here hat G has to be rotated for Canada
  to meet the United States, and hat F must not be for France to meet Serbia.
\<close>

theorem drawKnockoutStage_lockstep_hang:
  "validBracket (historyOf groupsHistory) lockstepTeams
     [(lockstepTeams ! 0, lockstepTeams ! 7), (lockstepTeams ! 1, lockstepTeams ! 6),
      (lockstepTeams ! 2, lockstepTeams ! 4), (lockstepTeams ! 3, lockstepTeams ! 5)]
   \<and> drawKnockoutStage (historyOf groupsHistory) lockstepTeams = None"
proof
  show "validBracket (historyOf groupsHistory) lockstepTeams
     [(lockstepTeams ! 0, lockstepTeams ! 7), (lockstepTeams ! 1, lockstepTeams ! 6),
      (lockstepTeams ! 2, lockstepTeams ! 4), (lockstepTeams ! 3, lockstepTeams ! 5)]"
    by (simp add: validBracket_def teamsOf_def hatPair_def isMatchAlreadyPlayed_historyOf
        groupsHistory_eq lockstepTeams_def seeded_def)
  have "length lockstepTeams = 8"
    by (simp add: lockstepTeams_def)
  then show "drawKnockoutStage (historyOf groupsHistory) lockstepTeams = None"
    using drawLoop_None [OF hatsOf_makeHats lockstep_not_paired]
    by (simp add: drawKnockoutStage_eight)
qed

text \<open>
  C6, as the source has it: the retry loop has no bound and no error exit. A draw
  that cannot converge keeps \<open>drawKnockoutStage\<close> from returning at all; no error is
  raised. Here Canada has played both teams of hat G.
\<close>

theorem drawKnockoutStage_blocked_counterexample:
  "isMatchAlreadyPlayed (historyOf groupsHistory) (blockedTeams ! 0) (blockedTeams ! 6)
   \<and> isMatchAlreadyPlayed (historyOf groupsHistory) (blockedTeams ! 0) (blockedTeams ! 7)
   \<and> drawKnockoutStage (historyOf groupsHistory) blockedTeams = None"
proof -
  have "length blockedTeams = 8"
    by (simp add: blockedTeams_def)
  moreover have "\<not> paired (historyOf groupsHistory) (makeHats blockedTeams)"
    "\<not> paired (historyOf groupsHistory) (retry (makeHats blockedTeams))"
    by (simp_all add: paired_def tryPairing_def findOpponent_def makeHats_def retry_def
        reorderTeams_def isMatchAlreadyPlayed_historyOf groupsHistory_eq blockedTeams_def
        seeded_def)
  moreover have "isMatchAlreadyPlayed (historyOf groupsHistory) (blockedTeams ! 0) (blockedTeams ! 6)"
    "isMatchAlreadyPlayed (historyOf groupsHistory) (blockedTeams ! 0) (blockedTeams ! 7)"
    by (simp_all add: isMatchAlreadyPlayed_historyOf groupsHistory_eq blockedTeams_def seeded_def)
  ultimately show ?thesis
    by (simp add: drawKnockoutStage_None_iff)
qed

text \<open>
  C6, amended. When neither the initial order of the hats nor the order with hats G
  and F rotated lets \<open>tryPairing\<close> form four pairs, \<open>drawKnockoutStage\<close> does not
  return: it neither stops after a number of retries nor raises an error.
\<close>

theorem drawKnockoutStage_unbounded:
  assumes "length ts = 8"
    and "\<not> paired g (makeHats ts)" and "\<not> paired g (retry (makeHats ts))"
  shows "drawKnockoutStage g ts = None"
  using assms by (simp add: drawKnockoutStage_None_iff)

theorem drawKnockoutStage_unbounded_witness:
  "length blockedTeams2 = 8
   \<and> \<not> paired (historyOf groupsHistory) (makeHats blockedTeams2)
   \<and> \<not> paired (historyOf groupsHistory) (retry (makeHats blockedTeams2))
   \<and> drawKnockoutStage (historyOf groupsHistory) blockedTeams2 = None"
proof -
  have len: "length blockedTeams2 = 8"
    by (simp add: blockedTeams2_def)
  have np: "\<not> paired (historyOf groupsHistory) (makeHats blockedTeams2)"
    "\<not> paired (historyOf groupsHistory) (retry (makeHats blockedTeams2))"
    by (simp_all add: paired_def tryPairing_def findOpponent_def makeHats_def retry_def
        reorderTeams_def isMatchAlreadyPlayed_historyOf groupsHistory_eq blockedTeams2_def
        seeded_def)
  from drawKnockoutStage_unbounded [OF len np] len np show ?thesis by simp
qed

section \<open>The knockout stage\<close>

lemmas run_match = knockoutMatch_def simulatePenaltyShootout_def run_game

lemma simulatePenaltyShootout_range:
  assumes "uniform01 rnd"
  shows "simulatePenaltyShootout rnd pos = ((\<lfloor>rnd pos * 5\<rfloor>, \<lfloor>rnd (pos + 1) * 5\<rfloor>), pos + 2)"
    and "0 \<le> \<lfloor>rnd i * 5\<rfloor>" and "\<lfloor>rnd i * 5\<rfloor> < 5"
proof -
  show "simulatePenaltyShootout rnd pos = ((\<lfloor>rnd pos * 5\<rfloor>, \<lfloor>rnd (pos + 1) * 5\<rfloor>), pos + 2)"
    by (simp add: simulatePenaltyShootout_def)
  have "0 \<le> rnd i" "rnd i < 1"
    using assms by (simp_all add: uniform01_def)
  then show "0 \<le> \<lfloor>rnd i * 5\<rfloor>" "\<lfloor>rnd i * 5\<rfloor> < 5"
    by (simp_all add: floor_less_iff)
qed

lemma knockoutMatch_shootout:
  assumes "simulateGamePoisson rnd (ranking team1) (ranking team2)
             (teamForms (name team1)) (teamForms (name team2)) pos = Some ((s, s), pos1)"
    and "simulatePenaltyShootout rnd pos1 = ((a, b), pos2)"
  shows "knockoutMatch teamForms rnd team1 team2 pos =
           Some (if a > b then team1 else team2, pos1 + 2)"
proof -
  have "pos2 = pos1 + 2"
    using assms(2) by (auto simp: simulatePenaltyShootout_def)
  then show ?thesis
    using assms by (simp add: knockoutMatch_def)
qed

lemma knockoutMatch_decided:
  assumes "simulateGamePoisson rnd (ranking team1) (ranking team2)
             (teamForms (name team1)) (teamForms (name team2)) pos = Some ((s1, s2), pos1)"
    and "s1 \<noteq> s2"
  shows "knockoutMatch teamForms rnd team1 team2 pos =
           Some (if s1 > s2 then team1 else team2, pos1)"
  using assms by (simp add: knockoutMatch_def)

lemma playFinal_tie:
  assumes "simulateGamePoisson rnd (ranking finalist1) (ranking finalist2)
             (teamForms (name finalist1)) (teamForms (name finalist2)) pos = Some ((s, s), pos')"
  shows "playFinal teamForms rnd (finalist1 # finalist2 # rest) pos =
           Some (Inr (\<lparr>champion = finalist2, runnerUp = finalist2\<rparr>, pos'))"
  using assms by (simp add: playFinal_def)

text \<open>
  C5, as the source has it: a tied shootout is not run again. The match and its
  shootout are both tied at 0:0, the next two draws would give a shootout of 4:0, and
  the second team advances after the first shootout.
\<close>

theorem knockoutMatch_tied_shootout_counterexample:
  "simulateGamePoisson (replay tiedShootoutDraws) (ranking (retryTeams ! 0)) (ranking (retryTeams ! 7))
       (Map.empty (name (retryTeams ! 0))) (Map.empty (name (retryTeams ! 7))) 0 = Some ((0, 0), 2)
   \<and> simulatePenaltyShootout (replay tiedShootoutDraws) 2 = ((0, 0), 4)
   \<and> simulatePenaltyShootout (replay tiedShootoutDraws) 4 = ((4, 0), 6)
   \<and> knockoutMatch Map.empty (replay tiedShootoutDraws) (retryTeams ! 0) (retryTeams ! 7) 0
       = Some (retryTeams ! 7, 4)"
proof -
  have g: "simulateGamePoisson (replay tiedShootoutDraws) (ranking (retryTeams ! 0))
       (ranking (retryTeams ! 7))
       (Map.empty (name (retryTeams ! 0))) (Map.empty (name (retryTeams ! 7))) 0 = Some ((0, 0), 2)"
    by (simp add: run_game tiedShootoutDraws_def retryTeams_def seeded_def)
  have s: "simulatePenaltyShootout (replay tiedShootoutDraws) 2 = ((0, 0), 4)"
    "simulatePenaltyShootout (replay tiedShootoutDraws) 4 = ((4, 0), 6)"
    by (simp_all add: simulatePenaltyShootout_def replay_def tiedShootoutDraws_def)
  from knockoutMatch_shootout [OF g s(1)] g s show ?thesis by simp
qed

text \<open>
  C5, amended. The penalty shootout returns two integers, each in \<open>[0, 5)\<close> and each
  the floor of five times its own draw. It is run once for a tied quarter-final or
  semi-final (the match makes two more draws and no further one), and when its two
  scores differ the higher scorer advances.
\<close>

theorem simulatePenaltyShootout_once:
  assumes "uniform01 rnd"
  shows "simulatePenaltyShootout rnd pos = ((\<lfloor>rnd pos * 5\<rfloor>, \<lfloor>rnd (pos + 1) * 5\<rfloor>), pos + 2)
       \<and> 0 \<le> \<lfloor>rnd pos * 5\<rfloor> \<and> \<lfloor>rnd pos * 5\<rfloor> < 5
       \<and> 0 \<le> \<lfloor>rnd (pos + 1) * 5\<rfloor> \<and> \<lfloor>rnd (pos + 1) * 5\<rfloor> < 5
       \<and> (simulateGamePoisson rnd (ranking team1) (ranking team2)
             (teamForms (name team1)) (teamForms (name team2)) pos0 = Some ((s, s), pos)
          \<longrightarrow> map_option snd (knockoutMatch teamForms rnd team1 team2 pos0) = Some (pos + 2))
       \<and> (simulateGamePoisson rnd (ranking team1) (ranking team2)
             (teamForms (name team1)) (teamForms (name team2)) pos0 = Some ((s, s), pos)
           \<and> \<lfloor>rnd pos * 5\<rfloor> \<noteq> \<lfloor>rnd (pos + 1) * 5\<rfloor>
          \<longrightarrow> knockoutMatch teamForms rnd team1 team2 pos0 =
                Some (if \<lfloor>rnd pos * 5\<rfloor> > \<lfloor>rnd (pos + 1) * 5\<rfloor> then team1 else team2, pos + 2))"
  using simulatePenaltyShootout_range [OF assms]
    knockoutMatch_shootout [of rnd team1 team2 teamForms pos0 s pos
      "\<lfloor>rnd pos * 5\<rfloor>" "\<lfloor>rnd (pos + 1) * 5\<rfloor>" "pos + 2"]
  by simp

theorem simulatePenaltyShootout_once_witness:
  "uniform01 (replay shootoutDraws)
   \<and> simulateGamePoisson (replay shootoutDraws) (ranking (retryTeams ! 0)) (ranking (retryTeams ! 7))
       (Map.empty (name (retryTeams ! 0))) (Map.empty (name (retryTeams ! 7))) 0 = Some ((0, 0), 2)
   \<and> simulatePenaltyShootout (replay shootoutDraws) 2 = ((4, 0), 4)
   \<and> knockoutMatch Map.empty (replay shootoutDraws) (retryTeams ! 0) (retryTeams ! 7) 0
       = Some (retryTeams ! 0, 4)"
proof -
  have u: "uniform01 (replay shootoutDraws)"
    by (rule uniform01_replay) (simp add: shootoutDraws_def)
  have g: "simulateGamePoisson (replay shootoutDraws) (ranking (retryTeams ! 0))
       (ranking (retryTeams ! 7))
       (Map.empty (name (retryTeams ! 0))) (Map.empty (name (retryTeams ! 7))) 0 = Some ((0, 0), 2)"
    by (simp add: run_game shootoutDraws_def retryTeams_def seeded_def)
  have r: "replay shootoutDraws 2 = 9 / 10" "replay shootoutDraws 3 = 1 / 10"
    by (simp_all add: replay_def shootoutDraws_def)
  from simulatePenaltyShootout_once [OF u, of 2 "retryTeams ! 0" "retryTeams ! 7" Map.empty 0 0]
    u g
  show ?thesis by (simp add: r)
qed

text \<open>
  C10. If the two scores of the final are equal, no shootout is run for it (no
  further draw is made), and \<open>simulateKnockoutStage\<close> returns the second finalist both
  as champion and as runner-up; \<open>displayEliminationResults\<close> shows that team again.
\<close>

theorem simulateKnockoutStage_final_tie:
  assumes "quarterFinalRound teamForms rnd quarterFinals [] pos = Some (semiFinals, pos1)"
    and "semiFinalRound teamForms rnd semiFinals [] pos1 = Some (finalist1 # finalist2 # rest, pos2)"
    and "simulateGamePoisson rnd (ranking finalist1) (ranking finalist2)
           (teamForms (name finalist1)) (teamForms (name finalist2)) pos2 = Some ((s, s), pos3)"
  shows "simulateKnockoutStage teamForms rnd quarterFinals pos =
           Some (Inr (\<lparr>champion = finalist2, runnerUp = finalist2\<rparr>, pos3))
       \<and> thirdPlace \<lparr>champion = finalist2, runnerUp = finalist2\<rparr> = finalist2"
  using assms playFinal_tie [OF assms(3), of rest]
  by (simp add: simulateKnockoutStage_def thirdPlace_def)

text \<open>Every draw is 0: every match and every shootout ends 0:0.\<close>

theorem simulateKnockoutStage_final_tie_witness:
  "quarterFinalRound Map.empty (replay []) lockstepBracket [] 0 =
     Some ([lockstepTeams ! 7, lockstepTeams ! 6, lockstepTeams ! 4, lockstepTeams ! 5], 16)
   \<and> semiFinalRound Map.empty (replay [])
       [lockstepTeams ! 7, lockstepTeams ! 6, lockstepTeams ! 4, lockstepTeams ! 5] [] 16 =
     Some ([lockstepTeams ! 6, lockstepTeams ! 5], 24)
   \<and> simulateGamePoisson (replay []) (ranking (lockstepTeams ! 6)) (ranking (lockstepTeams ! 5))
       (Map.empty (name (lockstepTeams ! 6))) (Map.empty (name (lockstepTeams ! 5))) 24 =
     Some ((0, 0), 26)
   \<and> simulateKnockoutStage Map.empty (replay []) lockstepBracket 0 =
     Some (Inr (\<lparr>champion = lockstepTeams ! 5, runnerUp = lockstepTeams ! 5\<rparr>, 26))"
proof -
  have q: "quarterFinalRound Map.empty (replay []) lockstepBracket [] 0 =
     Some ([lockstepTeams ! 7, lockstepTeams ! 6, lockstepTeams ! 4, lockstepTeams ! 5], 16)"
    by (simp add: lockstepBracket_def run_match lockstepTeams_def seeded_def)
  have s: "semiFinalRound Map.empty (replay [])
       [lockstepTeams ! 7, lockstepTeams ! 6, lockstepTeams ! 4, lockstepTeams ! 5] [] 16 =
     Some ([lockstepTeams ! 6, lockstepTeams ! 5], 24)"
    by (simp add: run_match lockstepTeams_def seeded_def)
  have f: "simulateGamePoisson (replay []) (ranking (lockstepTeams ! 6)) (ranking (lockstepTeams ! 5))
       (Map.empty (name (lockstepTeams ! 6))) (Map.empty (name (lockstepTeams ! 5))) 24 =
     Some ((0, 0), 26)"
    by (simp add: run_game lockstepTeams_def seeded_def)
  from simulateKnockoutStage_final_tie [OF q s f] q s f show ?thesis by simp
qed

text \<open>
  C3. The final is not played like the other knockout matches: with quarter-finals
  and semi-finals decided 1:0 or 0:1 and a final of 1:1 between Germany and Serbia, no
  shootout is run and Serbia is both champion and runner-up; Germany, the other
  finalist, is in neither place.
\<close>

theorem simulateKnockoutStage_tied_final_evaluated:
  "semiFinalRound Map.empty (replay tiedFinalDraws)
       [retryTeams ! 0, retryTeams ! 6, retryTeams ! 2, retryTeams ! 4] [] 12 =
     Some ([retryTeams ! 0, retryTeams ! 4], 18)
   \<and> simulateGamePoisson (replay tiedFinalDraws) (ranking (retryTeams ! 0)) (ranking (retryTeams ! 4))
       (Map.empty (name (retryTeams ! 0))) (Map.empty (name (retryTeams ! 4))) 18 =
     Some ((1, 1), 22)
   \<and> simulateKnockoutStage Map.empty (replay tiedFinalDraws) retryBracket 0 =
     Some (Inr (\<lparr>champion = retryTeams ! 4, runnerUp = retryTeams ! 4\<rparr>, 22))"
proof -
  have q: "quarterFinalRound Map.empty (replay tiedFinalDraws) retryBracket [] 0 =
     Some ([retryTeams ! 0, retryTeams ! 6, retryTeams ! 2, retryTeams ! 4], 12)"
    by (simp add: retryBracket_def run_match tiedFinalDraws_def retryTeams_def seeded_def)
  have s: "semiFinalRound Map.empty (replay tiedFinalDraws)
       [retryTeams ! 0, retryTeams ! 6, retryTeams ! 2, retryTeams ! 4] [] 12 =
     Some ([retryTeams ! 0, retryTeams ! 4], 18)"
    by (simp add: run_match tiedFinalDraws_def retryTeams_def seeded_def)
  have f: "simulateGamePoisson (replay tiedFinalDraws) (ranking (retryTeams ! 0))
       (ranking (retryTeams ! 4))
       (Map.empty (name (retryTeams ! 0))) (Map.empty (name (retryTeams ! 4))) 18 =
     Some ((1, 1), 22)"
    by (simp add: run_game tiedFinalDraws_def retryTeams_def seeded_def)
  have "simulateKnockoutStage Map.empty (replay tiedFinalDraws) retryBracket 0 =
     Some (Inr (\<lparr>champion = retryTeams ! 4, runnerUp = retryTeams ! 4\<rparr>, 22))"
    using q s f by (simp add: simulateKnockoutStage_def playFinal_def)
  with s f show ?thesis by simp
qed

end
